theory Spec2Isabelle
  imports Complex_Main "HOL-Library.Multiset" "HOL-Library.Char_ord" "HOL-Library.List_Lexorder"
begin

section \<open>Python values, dictionaries and exceptions\<close>

text \<open>
  Python numbers (ints and finite floats) are modelled as the reals they denote, with
  exact comparisons; strings are byte strings, and \<open>datetime\<close> values are integer
  microsecond counts. Python computes the trend percentage in floating point, so the
  arithmetic of that computation is a parameter (\<open>number_ops\<close>); elsewhere sums and
  quotients are taken exactly.
  A \<open>dict\<close> is an association list in insertion order with at most one entry per key.
  Only exceptions derived from \<open>Exception\<close> are modelled; they are values of
  \<open>py_error\<close>, and a function that may raise returns \<open>py_error + 'a\<close>.
\<close>

datatype py_error = KeyError | TypeError | AttributeError | JSONDecodeError | OtherError string

datatype pyval =
    PNone
  | PBool bool
  | PNum real
  | PStr string
  | PList "pyval list"
  | PDict "(string \<times> pyval) list"

type_synonym ('k, 'v) dict = "('k \<times> 'v) list"

definition dict_get :: "('k, 'v) dict \<Rightarrow> 'k \<Rightarrow> 'v option" where
  "dict_get d k = map_of d k"

definition dict_get_default :: "('k, 'v) dict \<Rightarrow> 'k \<Rightarrow> 'v \<Rightarrow> 'v" where
  "dict_get_default d k dflt = (case map_of d k of None \<Rightarrow> dflt | Some v \<Rightarrow> v)"

fun dict_set :: "'k \<Rightarrow> 'v \<Rightarrow> ('k, 'v) dict \<Rightarrow> ('k, 'v) dict" where
  "dict_set k v [] = [(k, v)]"
| "dict_set k v ((k', v') # d) =
     (if k' = k then (k, v) # d else (k', v') # dict_set k v d)"

definition dict_pop :: "'k \<Rightarrow> ('k, 'v) dict \<Rightarrow> ('k, 'v) dict" where
  "dict_pop k d = filter (\<lambda>kv. fst kv \<noteq> k) d"

text \<open>
  \<open>round(x, n)\<close> of exact arithmetic: rounding to \<open>n\<close> decimals, halves to the even
  neighbour, on the exact value. Python's \<open>round\<close> acts on the float at hand, which
  can lie on the other side of a tie.
\<close>

definition round_half_even :: "real \<Rightarrow> int" where
  "round_half_even y =
     (let f = \<lfloor>y\<rfloor>; d = y - of_int f
      in if d < 1 / 2 then f else if 1 / 2 < d then f + 1
         else if even f then f else f + 1)"

definition py_round :: "real \<Rightarrow> nat \<Rightarrow> real" where
  "py_round x nd = of_int (round_half_even (x * 10 ^ nd)) / 10 ^ nd"

text \<open>
  Python's \<open>-\<close>, \<open>/\<close>, \<open>*\<close> and \<open>round\<close> on numbers, as the interpreter computes
  them (exactly on ints, in IEEE double precision on floats): parameters of the functions
  that use them. \<open>exact_ops\<close> is the instance of exact arithmetic.
\<close>

record number_ops =
  num_sub :: "real \<Rightarrow> real \<Rightarrow> real"
  num_div :: "real \<Rightarrow> real \<Rightarrow> real"
  num_mul :: "real \<Rightarrow> real \<Rightarrow> real"
  num_round :: "real \<Rightarrow> nat \<Rightarrow> real"

definition exact_ops :: number_ops where
  "exact_ops =
     \<lparr>num_sub = (\<lambda>a b. a - b), num_div = (\<lambda>a b. a / b), num_mul = (\<lambda>a b. a * b),
      num_round = py_round\<rparr>"

text \<open>Sequencing of computations that may raise: the first exception ends the run.\<close>

definition py_bind :: "py_error + 'a \<Rightarrow> ('a \<Rightarrow> py_error + 'b) \<Rightarrow> py_error + 'b" where
  "py_bind m f = (case m of Inl e \<Rightarrow> Inl e | Inr v \<Rightarrow> f v)"

section \<open>multi\_agent\_system.py\<close>

text \<open>
  One element of \<open>timeseries\<close> is a dict with the keys \<open>day\<close>, \<open>metric\<close> and
  \<open>value\<close>; the agents read them with \<open>item.get(...)\<close> or \<open>item['value']\<close>, so each
  key may be absent.
\<close>

record health_item =
  item_day :: "string option"
  item_metric :: "string option"
  item_value :: "real option"

type_synonym summary = "(string, real) dict"

record trend_result =
  trend :: string
  change_percent :: real
  recommendation :: string

record anomaly =
  an_date :: "string option"
  an_metric :: "string option"
  an_value :: real
  an_severity :: string
  an_message :: string

record agent_results =
  ar_trends :: "(string, trend_result) dict option"
  ar_anomalies :: "anomaly list option"

record health_data =
  hd_summary :: "summary option"
  hd_timeseries :: "health_item list option"
  hd_agent_results :: "agent_results option"

subsection \<open>TrendAnalysisAgent\<close>

definition get_recommendation :: "string \<Rightarrow> string \<Rightarrow> real \<Rightarrow> string" where
  "get_recommendation metric tr change =
     (if metric = ''steps'' \<and> tr = ''decreasing''
        then ''Consider increasing daily physical activity''
      else if metric = ''sleep'' \<and> tr = ''decreasing''
        then ''Focus on improving sleep hygiene''
      else if metric = ''heart_rate'' \<and> \<bar>change\<bar> > 10
        then ''Monitor heart rate patterns closely''
      else ''Maintain current healthy patterns'')"

text \<open>\<open>[item['value'] for item in metric_data]\<close>: a missing key raises.\<close>

fun item_values :: "health_item list \<Rightarrow> py_error + real list" where
  "item_values [] = Inr []"
| "item_values (item # rest) =
     (case item_value item of
        None \<Rightarrow> Inl KeyError
      | Some v \<Rightarrow> (case item_values rest of Inl e \<Rightarrow> Inl e | Inr vs \<Rightarrow> Inr (v # vs)))"

text \<open>
  The body of the loop over the metric names: the entry written for one metric, if any.
  When the first value is not positive, \<open>change\<close> is the integer 0 and \<open>round(0, 2)\<close>
  is 0; otherwise it is the float that \<open>((last - first) / first) * 100\<close> evaluates to,
  rounded by \<open>round(change, 2)\<close>.
\<close>

definition metric_trend ::
  "number_ops \<Rightarrow> string \<Rightarrow> health_item list \<Rightarrow> py_error + trend_result option" where
  "metric_trend ops metric_name metrics =
     (let metric_data = filter (\<lambda>item. item_metric item = Some metric_name) metrics
      in if length metric_data \<ge> 2 then
           (case item_values metric_data of
              Inl e \<Rightarrow> Inl e
            | Inr vals \<Rightarrow>
                (let tr = (if last vals > hd vals then ''increasing'' else ''decreasing'');
                     change = (if hd vals > 0
                               then num_mul ops
                                      (num_div ops (num_sub ops (last vals) (hd vals)) (hd vals))
                                      100
                               else 0)
                 in Inr (Some \<lparr>trend = tr,
                      change_percent = (if hd vals > 0 then num_round ops change 2 else 0),
                      recommendation = get_recommendation metric_name tr change\<rparr>)))
         else Inr None)"

fun trend_loop ::
  "number_ops \<Rightarrow> string list \<Rightarrow> health_item list \<Rightarrow> (string, trend_result) dict
     \<Rightarrow> py_error + (string, trend_result) dict" where
  "trend_loop ops [] metrics trends = Inr trends"
| "trend_loop ops (metric_name # names) metrics trends =
     (case metric_trend ops metric_name metrics of
        Inl e \<Rightarrow> Inl e
      | Inr None \<Rightarrow> trend_loop ops names metrics trends
      | Inr (Some r) \<Rightarrow> trend_loop ops names metrics (dict_set metric_name r trends))"

definition tracked_metrics :: "string list" where
  "tracked_metrics = [''steps'', ''heart_rate'', ''sleep'', ''water'']"

record trend_analysis =
  ta_trends :: "(string, trend_result) dict"
  ta_confidence :: real

definition trend_analyze :: "number_ops \<Rightarrow> health_data \<Rightarrow> py_error + trend_analysis" where
  "trend_analyze ops data =
     (let metrics = (case hd_timeseries data of None \<Rightarrow> [] | Some ts \<Rightarrow> ts)
      in case trend_loop ops tracked_metrics metrics [] of
           Inl e \<Rightarrow> Inl e
         | Inr trends \<Rightarrow> Inr \<lparr>ta_trends = trends, ta_confidence = 85 / 100\<rparr>)"

text \<open>
  The trend as the specification words it, for comparison: first and last observation in
  chronological order (by \<open>day\<close>, ISO dates compare as strings), a tie is decreasing, and the
  percentage is \<open>(last - first) / first * 100\<close>, or 0 when the first value is 0.
\<close>

definition chronological :: "health_item list \<Rightarrow> health_item list" where
  "chronological obs = sort_key (\<lambda>item. case item_day item of None \<Rightarrow> [] | Some d \<Rightarrow> d) obs"

definition spec_trend :: "string \<Rightarrow> health_item list \<Rightarrow> (string \<times> real) option" where
  "spec_trend metric_name metrics =
     (let obs = chronological (filter (\<lambda>item. item_metric item = Some metric_name) metrics);
          vals = map (\<lambda>item. case item_value item of None \<Rightarrow> 0 | Some v \<Rightarrow> v) obs
      in if length vals \<ge> 2
         then Some (if last vals > hd vals then ''increasing'' else ''decreasing'',
                    if hd vals = 0 then 0 else (last vals - hd vals) / hd vals * 100)
         else None)"

text \<open>
  A series whose steps records are not in chronological order, whose sleep change is not a
  two-decimal number, and whose first water value is negative.
\<close>

definition unsorted_series :: "health_item list" where
  "unsorted_series =
     [\<lparr>item_day = Some ''2024-01-02'', item_metric = Some ''steps'', item_value = Some 3000\<rparr>,
      \<lparr>item_day = Some ''2024-01-01'', item_metric = Some ''steps'', item_value = Some 4000\<rparr>,
      \<lparr>item_day = Some ''2024-01-01'', item_metric = Some ''sleep'', item_value = Some 6\<rparr>,
      \<lparr>item_day = Some ''2024-01-02'', item_metric = Some ''sleep'', item_value = Some 7\<rparr>,
      \<lparr>item_day = Some ''2024-01-01'', item_metric = Some ''water'', item_value = Some (- 1)\<rparr>,
      \<lparr>item_day = Some ''2024-01-02'', item_metric = Some ''water'', item_value = Some 1\<rparr>]"

text \<open>
  The same series with two more records that carry no value: one of a metric that is not
  tracked, and the only record of its metric.
\<close>

definition partly_valued_series :: "health_item list" where
  "partly_valued_series =
     unsorted_series @
     [\<lparr>item_day = Some ''2024-01-02'', item_metric = Some ''mood'', item_value = None\<rparr>,
      \<lparr>item_day = Some ''2024-01-02'', item_metric = Some ''heart_rate'', item_value = None\<rparr>]"

text \<open>
  The detector reads \<open>item['value']\<close> only on the records of a tracked metric that has
  at least two records: those records must carry a value.
\<close>

definition trend_inputs_valued :: "health_item list \<Rightarrow> bool" where
  "trend_inputs_valued metrics =
     list_all (\<lambda>metric_name.
         length (filter (\<lambda>item. item_metric item = Some metric_name) metrics) < 2
         \<or> list_all (\<lambda>item. item_value item \<noteq> None)
              (filter (\<lambda>item. item_metric item = Some metric_name) metrics))
       tracked_metrics"

text \<open>The values of one metric's records, in input order.\<close>

definition observations :: "string \<Rightarrow> health_item list \<Rightarrow> real list" where
  "observations metric_name metrics =
     map (\<lambda>item. case item_value item of None \<Rightarrow> 0 | Some v \<Rightarrow> v)
       (filter (\<lambda>item. item_metric item = Some metric_name) metrics)"

subsection \<open>AnomalyDetectionAgent\<close>

text \<open>The body of the loop over \<open>timeseries\<close>: what one item appends to \<open>anomalies\<close>.\<close>

definition check_item :: "health_item \<Rightarrow> anomaly list" where
  "check_item item =
     (let metric = item_metric item;
          v = (case item_value item of None \<Rightarrow> 0 | Some x \<Rightarrow> x)
      in if metric = Some ''heart_rate'' \<and> v > 100 then
           [\<lparr>an_date = item_day item, an_metric = metric, an_value = v,
             an_severity = ''high'',
             an_message = ''Elevated resting heart rate detected''\<rparr>]
         else if metric = Some ''sleep'' \<and> v < 5 then
           [\<lparr>an_date = item_day item, an_metric = metric, an_value = v,
             an_severity = ''medium'',
             an_message = ''Insufficient sleep duration''\<rparr>]
         else if metric = Some ''steps'' \<and> v < 3000 then
           [\<lparr>an_date = item_day item, an_metric = metric, an_value = v,
             an_severity = ''low'',
             an_message = ''Low daily activity level''\<rparr>]
         else [])"

fun anomaly_loop :: "health_item list \<Rightarrow> anomaly list \<Rightarrow> anomaly list" where
  "anomaly_loop [] anomalies = anomalies"
| "anomaly_loop (item # rest) anomalies = anomaly_loop rest (anomalies @ check_item item)"

record anomaly_analysis =
  aa_anomalies :: "anomaly list"
  aa_risk_score :: real

definition anomaly_analyze :: "health_data \<Rightarrow> anomaly_analysis" where
  "anomaly_analyze data =
     (let timeseries = (case hd_timeseries data of None \<Rightarrow> [] | Some ts \<Rightarrow> ts);
          anomalies = anomaly_loop timeseries []
      in \<lparr>aa_anomalies = anomalies, aa_risk_score = real (length anomalies) * (2 / 10)\<rparr>)"

text \<open>
  The threshold table of the specification: metric, triggering condition, severity. The
  first matching rule decides.
\<close>

definition anomaly_rules :: "(string \<times> (real \<Rightarrow> bool) \<times> string) list" where
  "anomaly_rules =
     [(''heart_rate'', (\<lambda>v. v > 100), ''high''),
      (''sleep'', (\<lambda>v. v < 5), ''medium''),
      (''steps'', (\<lambda>v. v < 3000), ''low'')]"

definition spec_severities :: "health_item \<Rightarrow> string list" where
  "spec_severities item =
     take 1 (map (\<lambda>r. snd (snd r))
       (filter (\<lambda>r. item_metric item = Some (fst r)
                  \<and> fst (snd r) (case item_value item of None \<Rightarrow> 0 | Some x \<Rightarrow> x))
          anomaly_rules))"

subsection \<open>InsightGeneratorAgent: the wellness score\<close>

definition steps_points :: "real \<Rightarrow> real" where
  "steps_points steps =
     (if steps \<ge> 10000 then 25
      else if steps \<ge> 8000 then 20
      else if steps \<ge> 5000 then 15
      else max 0 (steps / 500))"

definition sleep_points :: "real \<Rightarrow> real" where
  "sleep_points sleep =
     (if 7 \<le> sleep \<and> sleep \<le> 9 then 25
      else if (6 \<le> sleep \<and> sleep < 7) \<or> (9 < sleep \<and> sleep \<le> 10) then 20
      else max 0 (25 - \<bar>sleep - 8\<bar> * 5))"

definition heart_rate_points :: "real \<Rightarrow> real" where
  "heart_rate_points hr =
     (if 60 \<le> hr \<and> hr \<le> 80 then 25
      else if (50 \<le> hr \<and> hr < 60) \<or> (80 < hr \<and> hr \<le> 90) then 20
      else max 0 (25 - \<bar>hr - 70\<bar> * 2))"

definition water_points :: "real \<Rightarrow> real" where
  "water_points water =
     (if water \<ge> 2000 then 25
      else if water \<ge> 1500 then 20
      else max 0 (water / 100))"

definition calculate_wellness_score :: "summary \<Rightarrow> real" where
  "calculate_wellness_score summ =
     (let score = 0; factors = (0::real);
          steps = dict_get_default summ ''steps_avg_7d'' 0;
          score = score + steps_points steps;
          factors = factors + 25;
          sleep = dict_get_default summ ''sleep_avg_7d'' 0;
          score = score + sleep_points sleep;
          factors = factors + 25;
          hr = dict_get_default summ ''heart_rate_avg_7d'' 0;
          score = score + heart_rate_points hr;
          factors = factors + 25;
          water = dict_get_default summ ''water_avg_7d'' 0;
          score = score + water_points water;
          factors = factors + 25
      in if factors > 0 then py_round ((score / factors) * 100) 1 else 0)"

text \<open>
  The sub-scores as the specification words them: a piecewise function of the raw value,
  clamped to the interval from 0 to 25.
\<close>

definition clamp25 :: "real \<Rightarrow> real" where
  "clamp25 x = max 0 (min 25 x)"

definition spec_steps :: "real \<Rightarrow> real" where
  "spec_steps s = (if s \<ge> 10000 then 25 else if s \<ge> 8000 then 20
                   else if s \<ge> 5000 then 15 else s / 500)"

definition spec_sleep :: "real \<Rightarrow> real" where
  "spec_sleep s = (if s \<in> {7..9} then 25 else if s \<in> {6..<7} \<union> {9<..10} then 20
                   else 25 - \<bar>s - 8\<bar> * 5)"

definition spec_heart_rate :: "real \<Rightarrow> real" where
  "spec_heart_rate h = (if h \<in> {60..80} then 25 else if h \<in> {50..<60} \<union> {80<..90} then 20
                        else 25 - \<bar>h - 70\<bar> * 2)"

definition spec_water :: "real \<Rightarrow> real" where
  "spec_water w = (if w \<ge> 2000 then 25 else if w \<ge> 1500 then 20 else w / 100)"

section \<open>Strings\<close>

text \<open>
  \<open>str.find\<close> and \<open>str.rfind\<close> for a single character (the index, or -1), slicing with
  the non-negative bounds the callers pass, \<open>strip\<close>, \<open>lower\<close>, the substring test
  \<open>in\<close> and \<open>split('\n')\<close>, on byte strings.
\<close>

fun find_char :: "char \<Rightarrow> string \<Rightarrow> int" where
  "find_char c [] = - 1"
| "find_char c (x # xs) =
     (if x = c then 0 else (let i = find_char c xs in if i = - 1 then - 1 else i + 1))"

definition rfind_char :: "char \<Rightarrow> string \<Rightarrow> int" where
  "rfind_char c s =
     (let i = find_char c (rev s) in if i = - 1 then - 1 else int (length s) - 1 - i)"

definition py_slice :: "string \<Rightarrow> int \<Rightarrow> int \<Rightarrow> string" where
  "py_slice s start stop = drop (nat start) (take (nat stop) s)"

definition is_space :: "char \<Rightarrow> bool" where
  "is_space c = (let n = (of_char c :: nat) in (9 \<le> n \<and> n \<le> 13) \<or> (28 \<le> n \<and> n \<le> 32))"

definition py_strip :: "string \<Rightarrow> string" where
  "py_strip s = rev (dropWhile is_space (rev (dropWhile is_space s)))"

definition strip_char :: "char \<Rightarrow> string \<Rightarrow> string" where
  "strip_char c s = rev (dropWhile (\<lambda>x. x = c) (rev (dropWhile (\<lambda>x. x = c) s)))"

definition lower_char :: "char \<Rightarrow> char" where
  "lower_char c =
     (let n = (of_char c :: nat) in if 65 \<le> n \<and> n \<le> 90 then char_of (n + 32) else c)"

definition py_lower :: "string \<Rightarrow> string" where
  "py_lower s = map lower_char s"

fun starts_with :: "string \<Rightarrow> string \<Rightarrow> bool" where
  "starts_with [] s = True"
| "starts_with (p # ps) [] = False"
| "starts_with (p # ps) (x # xs) = (p = x \<and> starts_with ps xs)"

fun contains :: "string \<Rightarrow> string \<Rightarrow> bool" where
  "contains sub [] = starts_with sub []"
| "contains sub (x # xs) = (starts_with sub (x # xs) \<or> contains sub xs)"

fun split_lines :: "string \<Rightarrow> string list" where
  "split_lines [] = [[]]"
| "split_lines (c # cs) =
     (if c = CHR 0x0A then [] # split_lines cs
      else (case split_lines cs of [] \<Rightarrow> [[c]] | l # ls \<Rightarrow> (c # l) # ls))"

text \<open>\<open>str(n)\<close> for a natural number: its decimal digits.\<close>

fun str_nat :: "nat \<Rightarrow> string" where
  "str_nat n =
     (if n < 10 then [char_of (48 + n)]
      else str_nat (n div 10) @ [char_of (48 + n mod 10)])"

declare str_nat.simps [simp del]

section \<open>gemini\_agent.py\<close>

text \<open>
  The completion service is a parameter: given the prompt it raises or responds with a
  text. The prompt is kept as the values the f-string renders. \<open>json.loads\<close> is a
  parameter too: it raises or returns a value. The functions are given twice: first on
  input typed as the data model types it (a summary of numbers), where building the
  prompt and evaluating the fallback cannot fail, then on arbitrary dicts.
\<close>

datatype llm_outcome = Raises py_error | Responds string

record health_prompt =
  hp_steps :: real
  hp_heart_rate :: real
  hp_sleep :: real
  hp_water :: real
  hp_trends :: "(string, trend_result) dict"
  hp_anomalies :: "anomaly list"

record insight_result =
  ir_status :: string
  ir_insights :: pyval
  ir_error :: "py_error option"
  ir_confidence :: "real option"
  ir_source :: "string option"

definition create_health_prompt :: "health_data \<Rightarrow> health_prompt" where
  "create_health_prompt data =
     (let summ = (case hd_summary data of None \<Rightarrow> [] | Some s \<Rightarrow> s);
          results = (case hd_agent_results data of
                       None \<Rightarrow> \<lparr>ar_trends = None, ar_anomalies = None\<rparr> | Some r \<Rightarrow> r);
          trends = (case ar_trends results of None \<Rightarrow> [] | Some t \<Rightarrow> t);
          anomalies = (case ar_anomalies results of None \<Rightarrow> [] | Some a \<Rightarrow> a)
      in \<lparr>hp_steps = dict_get_default summ ''steps_avg_7d'' 0,
          hp_heart_rate = dict_get_default summ ''heart_rate_avg_7d'' 0,
          hp_sleep = dict_get_default summ ''sleep_avg_7d'' 0,
          hp_water = dict_get_default summ ''water_avg_7d'' 0,
          hp_trends = trends, hp_anomalies = anomalies\<rparr>)"

fun extract_loop ::
  "string list \<Rightarrow> string list \<times> string list \<times> string list
     \<Rightarrow> string list \<times> string list \<times> string list" where
  "extract_loop [] acc = acc"
| "extract_loop (l # ls) (recs, risks, positives) =
     (let line = py_strip l
      in if contains ''recommend'' (py_lower line)
           then extract_loop ls (recs @ [line], risks, positives)
         else if contains ''risk'' (py_lower line)
           then extract_loop ls (recs, risks @ [line], positives)
         else if contains ''positive'' (py_lower line) \<or> contains ''good'' (py_lower line)
           then extract_loop ls (recs, risks, positives @ [line])
         else extract_loop ls (recs, risks, positives))"

definition extract_insights_from_text :: "string \<Rightarrow> pyval" where
  "extract_insights_from_text text =
     (case extract_loop (split_lines text) ([], [], []) of
        (recs, risks, positives) \<Rightarrow>
          PDict [(''wellness_score'', PNum 75),
                 (''recommendations'', PList (map PStr recs)),
                 (''risks'', PList (map PStr risks)),
                 (''positive_patterns'', PList (map PStr positives)),
                 (''summary'', PStr ''Analysis completed'')])"

definition parse_gemini_response ::
  "(string \<Rightarrow> py_error + pyval) \<Rightarrow> string \<Rightarrow> py_error + pyval" where
  "parse_gemini_response loads response_text =
     (let start = find_char (CHR ''{'') response_text;
          stop = rfind_char (CHR ''}'') response_text + 1
      in if start \<noteq> - 1 \<and> stop \<noteq> - 1 then
           (case loads (py_slice response_text start stop) of
              Inr v \<Rightarrow> Inr v
            | Inl JSONDecodeError \<Rightarrow> Inr (extract_insights_from_text response_text)
            | Inl e \<Rightarrow> Inl e)
         else Inr (extract_insights_from_text response_text))"

definition fallback_insights :: "health_data \<Rightarrow> pyval" where
  "fallback_insights data =
     (let summ = (case hd_summary data of None \<Rightarrow> [] | Some s \<Rightarrow> s);
          steps = dict_get_default summ ''steps_avg_7d'' 0;
          sleep = dict_get_default summ ''sleep_avg_7d'' 0;
          hr = dict_get_default summ ''heart_rate_avg_7d'' 0;
          recommendations = [];
          recommendations = (if steps < 8000
             then recommendations @ [''Increase daily steps to 8,000+''] else recommendations);
          recommendations = (if sleep < 7
             then recommendations @ [''Aim for 7-9 hours of sleep''] else recommendations);
          recommendations = (if hr > 85
             then recommendations @ [''Monitor heart rate patterns''] else recommendations)
      in PDict [(''wellness_score'',
                   PNum (min 100 (max 0 ((steps / 100) + (sleep * 10) + (100 - hr))))),
                (''recommendations'', PList (map PStr (take 3 recommendations))),
                (''risks'', PList [PStr ''Insufficient data for risk assessment'']),
                (''positive_patterns'', PList [PStr ''Regular health monitoring'']),
                (''summary'', PStr ''Basic health assessment completed'')])"

text \<open>
  \<open>generate_health_insights\<close> on typed input: the prompt is built before the \<open>try\<close>;
  whatever the body of the \<open>try\<close> raises is caught and answered with the fallback.
\<close>

definition generate_health_insights ::
  "(string \<Rightarrow> py_error + pyval) \<Rightarrow> (health_prompt \<Rightarrow> llm_outcome) \<Rightarrow> health_data
     \<Rightarrow> py_error + insight_result" where
  "generate_health_insights loads llm data =
     (let prompt = create_health_prompt data;
          attempt =
            (case llm prompt of
               Raises e \<Rightarrow> Inl e
             | Responds text \<Rightarrow>
                 (case parse_gemini_response loads text of
                    Inl e \<Rightarrow> Inl e
                  | Inr insights \<Rightarrow>
                      Inr \<lparr>ir_status = ''success'', ir_insights = insights, ir_error = None,
                           ir_confidence = Some (9 / 10), ir_source = Some ''gemini-pro''\<rparr>))
      in case attempt of
           Inr r \<Rightarrow> Inr r
         | Inl e \<Rightarrow>
             Inr \<lparr>ir_status = ''error'', ir_insights = fallback_insights data,
                  ir_error = Some e, ir_confidence = None, ir_source = None\<rparr>)"

text \<open>
  What \<open>json.loads\<close> guarantees on a text that is empty or begins with an opening brace:
  it raises or returns a dict.
\<close>

definition loads_objects :: "(string \<Rightarrow> py_error + pyval) \<Rightarrow> bool" where
  "loads_objects loads =
     (\<forall>s v. loads s = Inr v \<longrightarrow> s = [] \<or> hd s = CHR ''{'' \<longrightarrow> (\<exists>d. v = PDict d))"

text \<open>A loader for examples: it knows the empty object only.\<close>

definition toy_loads :: "string \<Rightarrow> py_error + pyval" where
  "toy_loads s = (if s = ''{}'' then Inr (PDict []) else Inl JSONDecodeError)"

text \<open>
  The fallback as the specification words it: the clamped score and the recommendations
  of the threshold checks, capped at three.
\<close>

definition clamp :: "real \<Rightarrow> real \<Rightarrow> real \<Rightarrow> real" where
  "clamp x lo hi = (if x < lo then lo else if hi < x then hi else x)"

definition spec_fallback_recommendations :: "real \<Rightarrow> real \<Rightarrow> real \<Rightarrow> string list" where
  "spec_fallback_recommendations steps sleep hr =
     take 3 (map snd (filter fst
       [(steps < 8000, ''Increase daily steps to 8,000+''),
        (sleep < 7, ''Aim for 7-9 hours of sleep''),
        (hr > 85, ''Monitor heart rate patterns'')]))"

definition summary_of :: "health_data \<Rightarrow> summary" where
  "summary_of data = (case hd_summary data of None \<Rightarrow> [] | Some s \<Rightarrow> s)"

subsection \<open>The same functions on arbitrary dicts\<close>

text \<open>
  The definitions above take the summary as the data model types it: a dict of numbers.
  The annotation of \<open>health_data\<close> is \<open>Dict\<close>, whose values can be any Python values;
  the definitions below follow the source on those. There \<open>obj.get(...)\<close> raises
  \<open>AttributeError\<close> unless \<open>obj\<close> is a dict, comparing a number with a value that is
  not a number raises \<open>TypeError\<close>, and \<open>json.dumps\<close> (a parameter) raises on what it
  cannot serialise. A \<open>bool\<close> counts as the number 0 or 1.
\<close>

definition py_get :: "pyval \<Rightarrow> string \<Rightarrow> pyval \<Rightarrow> py_error + pyval" where
  "py_get obj key dflt =
     (case obj of PDict d \<Rightarrow> Inr (dict_get_default d key dflt) | _ \<Rightarrow> Inl AttributeError)"

definition num_of :: "pyval \<Rightarrow> py_error + real" where
  "num_of v =
     (case v of PNum x \<Rightarrow> Inr x | PBool b \<Rightarrow> Inr (if b then 1 else 0) | _ \<Rightarrow> Inl TypeError)"

record text_prompt =
  tp_steps :: pyval
  tp_heart_rate :: pyval
  tp_sleep :: pyval
  tp_water :: pyval
  tp_trends :: string
  tp_anomalies :: string

definition create_health_prompt_dyn ::
  "(pyval \<Rightarrow> py_error + string) \<Rightarrow> (string, pyval) dict \<Rightarrow> py_error + text_prompt" where
  "create_health_prompt_dyn dumps data =
     (let summ = dict_get_default data ''summary'' (PDict [])
      in py_bind (py_get (dict_get_default data ''agent_results'' (PDict []))
                    ''trends'' (PDict [])) (\<lambda>trends.
         py_bind (py_get (dict_get_default data ''agent_results'' (PDict []))
                    ''anomalies'' (PList [])) (\<lambda>anomalies.
         py_bind (py_get summ ''steps_avg_7d'' (PNum 0)) (\<lambda>steps.
         py_bind (py_get summ ''heart_rate_avg_7d'' (PNum 0)) (\<lambda>hr.
         py_bind (py_get summ ''sleep_avg_7d'' (PNum 0)) (\<lambda>sleep.
         py_bind (py_get summ ''water_avg_7d'' (PNum 0)) (\<lambda>water.
         py_bind (dumps trends) (\<lambda>trends_text.
         py_bind (dumps anomalies) (\<lambda>anomalies_text.
           Inr \<lparr>tp_steps = steps, tp_heart_rate = hr, tp_sleep = sleep, tp_water = water,
                tp_trends = trends_text, tp_anomalies = anomalies_text\<rparr>)))))))))"

definition fallback_insights_dyn :: "(string, pyval) dict \<Rightarrow> py_error + pyval" where
  "fallback_insights_dyn data =
     (let summ = dict_get_default data ''summary'' (PDict [])
      in py_bind (py_get summ ''steps_avg_7d'' (PNum 0)) (\<lambda>steps_value.
         py_bind (py_get summ ''sleep_avg_7d'' (PNum 0)) (\<lambda>sleep_value.
         py_bind (py_get summ ''heart_rate_avg_7d'' (PNum 0)) (\<lambda>hr_value.
         py_bind (num_of steps_value) (\<lambda>steps.
         py_bind (num_of sleep_value) (\<lambda>sleep.
         py_bind (num_of hr_value) (\<lambda>hr.
           (let recommendations = [];
                recommendations = (if steps < 8000
                   then recommendations @ [''Increase daily steps to 8,000+'']
                   else recommendations);
                recommendations = (if sleep < 7
                   then recommendations @ [''Aim for 7-9 hours of sleep'']
                   else recommendations);
                recommendations = (if hr > 85
                   then recommendations @ [''Monitor heart rate patterns'']
                   else recommendations)
            in Inr (PDict
                 [(''wellness_score'',
                     PNum (min 100 (max 0 ((steps / 100) + (sleep * 10) + (100 - hr))))),
                  (''recommendations'', PList (map PStr (take 3 recommendations))),
                  (''risks'', PList [PStr ''Insufficient data for risk assessment'']),
                  (''positive_patterns'', PList [PStr ''Regular health monitoring'']),
                  (''summary'', PStr ''Basic health assessment completed'')])))))))))"

text \<open>
  The prompt is built before the \<open>try\<close>, so its exception reaches the caller. Whatever
  the body of the \<open>try\<close> raises is caught, and the handler evaluates the fallback: an
  exception there reaches the caller too.
\<close>

definition generate_health_insights_dyn ::
  "(pyval \<Rightarrow> py_error + string) \<Rightarrow> (string \<Rightarrow> py_error + pyval)
     \<Rightarrow> (text_prompt \<Rightarrow> llm_outcome) \<Rightarrow> (string, pyval) dict \<Rightarrow> py_error + insight_result" where
  "generate_health_insights_dyn dumps loads llm data =
     py_bind (create_health_prompt_dyn dumps data) (\<lambda>prompt.
       (let attempt =
              (case llm prompt of
                 Raises e \<Rightarrow> Inl e
               | Responds response \<Rightarrow>
                   py_bind (parse_gemini_response loads response) (\<lambda>insights.
                     Inr \<lparr>ir_status = ''success'', ir_insights = insights, ir_error = None,
                          ir_confidence = Some (9 / 10), ir_source = Some ''gemini-pro''\<rparr>))
        in case attempt of
             Inr r \<Rightarrow> Inr r
           | Inl e \<Rightarrow>
               py_bind (fallback_insights_dyn data) (\<lambda>insights.
                 Inr \<lparr>ir_status = ''error'', ir_insights = insights, ir_error = Some e,
                      ir_confidence = None, ir_source = None\<rparr>)))"

text \<open>The dicts that the typed records stand for.\<close>

definition py_opt_str :: "string option \<Rightarrow> pyval" where
  "py_opt_str v = (case v of None \<Rightarrow> PNone | Some s \<Rightarrow> PStr s)"

definition py_summary :: "summary \<Rightarrow> pyval" where
  "py_summary summ = PDict (map (\<lambda>kv. (fst kv, PNum (snd kv))) summ)"

definition py_trend_result :: "trend_result \<Rightarrow> pyval" where
  "py_trend_result r =
     PDict [(''trend'', PStr (trend r)), (''change_percent'', PNum (change_percent r)),
            (''recommendation'', PStr (recommendation r))]"

definition py_anomaly :: "anomaly \<Rightarrow> pyval" where
  "py_anomaly a =
     PDict [(''date'', py_opt_str (an_date a)), (''metric'', py_opt_str (an_metric a)),
            (''value'', PNum (an_value a)), (''severity'', PStr (an_severity a)),
            (''message'', PStr (an_message a))]"

definition py_item :: "health_item \<Rightarrow> pyval" where
  "py_item item =
     PDict ((case item_day item of None \<Rightarrow> [] | Some d \<Rightarrow> [(''day'', PStr d)])
          @ (case item_metric item of None \<Rightarrow> [] | Some m \<Rightarrow> [(''metric'', PStr m)])
          @ (case item_value item of None \<Rightarrow> [] | Some v \<Rightarrow> [(''value'', PNum v)]))"

definition py_agent_results :: "agent_results \<Rightarrow> pyval" where
  "py_agent_results r =
     PDict ((case ar_trends r of
               None \<Rightarrow> []
             | Some t \<Rightarrow> [(''trends'', PDict (map (\<lambda>kv. (fst kv, py_trend_result (snd kv))) t))])
          @ (case ar_anomalies r of
               None \<Rightarrow> []
             | Some a \<Rightarrow> [(''anomalies'', PList (map py_anomaly a))]))"

definition py_health_data :: "health_data \<Rightarrow> (string, pyval) dict" where
  "py_health_data data =
     (case hd_summary data of None \<Rightarrow> [] | Some s \<Rightarrow> [(''summary'', py_summary s)])
     @ (case hd_timeseries data of
          None \<Rightarrow> [] | Some ts \<Rightarrow> [(''timeseries'', PList (map py_item ts))])
     @ (case hd_agent_results data of
          None \<Rightarrow> [] | Some r \<Rightarrow> [(''agent_results'', py_agent_results r)])"

section \<open>navbar\_ai.py\<close>

text \<open>
  The fields of \<open>MetricsInput\<close> are declared \<open>Optional[float]\<close>: a request may carry
  \<open>null\<close> for any of them. Formatting \<open>None\<close> with \<open>:.0f\<close>, comparing it with a number
  and using it in arithmetic raise \<open>TypeError\<close>.
\<close>

record MetricsInput =
  avgSteps :: "real option"
  avgHeartRate :: "real option"
  avgSleep :: "real option"
  avgWater :: "real option"

record NavGreetingRequest =
  ngr_metrics :: MetricsInput
  ngr_timestamp :: string

record NavRecommendationsRequest =
  nrr_metrics :: MetricsInput
  nrr_currentPage :: string

datatype navbar_prompt =
    GreetingPrompt real real real real string
  | StatusPrompt real real real real
  | NavPrompt real real real real string
  | ActionPrompt real real real real
  | AlertPrompt "pyval list"

datatype 'a http_response = Http200 'a | Http500 py_error

text \<open>The four format fields of a prompt: the first \<open>None\<close> raises.\<close>

definition format_metrics :: "MetricsInput \<Rightarrow> py_error + real \<times> real \<times> real \<times> real" where
  "format_metrics metrics =
     (case avgSteps metrics of None \<Rightarrow> Inl TypeError | Some st \<Rightarrow>
      case avgHeartRate metrics of None \<Rightarrow> Inl TypeError | Some h \<Rightarrow>
      case avgSleep metrics of None \<Rightarrow> Inl TypeError | Some sl \<Rightarrow>
      case avgWater metrics of None \<Rightarrow> Inl TypeError | Some w \<Rightarrow> Inr (st, h, sl, w))"

definition generate_mock_greeting :: "MetricsInput \<Rightarrow> py_error + string" where
  "generate_mock_greeting metrics =
     (let hour = (12 :: nat);
          time_of_day = (if hour < 17 then ''afternoon'' else ''evening'')
      in case avgSteps metrics of
           None \<Rightarrow> Inl TypeError
         | Some steps \<Rightarrow>
             (let steps_status =
                    (if steps \<ge> 8000 then ''Great job with your steps''
                     else if steps \<ge> 5000 then ''Keep moving'' else ''Time to get active'')
              in Inr (''Good '' @ time_of_day @ ''! '' @ steps_status @ ''.'')))"

definition generate_mock_health_status :: "MetricsInput \<Rightarrow> py_error + pyval" where
  "generate_mock_health_status metrics =
     (case avgSteps metrics of None \<Rightarrow> Inl TypeError | Some st \<Rightarrow>
      case avgSleep metrics of None \<Rightarrow> Inl TypeError | Some sl \<Rightarrow>
      case avgHeartRate metrics of None \<Rightarrow> Inl TypeError | Some h \<Rightarrow>
      case avgWater metrics of None \<Rightarrow> Inl TypeError | Some w \<Rightarrow>
        (let score = (st / 10000) * (3 / 10) + (sl / 8) * (3 / 10)
                     + ((100 - \<bar>h - 70\<bar>) / 100) * (2 / 10) + (w / (25 / 10)) * (2 / 10)
         in if score \<ge> 8 / 10 then
              Inr (PDict [(''status'', PStr ''Excellent''), (''color'', PStr ''emerald''),
                          (''score'', PNum 85)])
            else if score \<ge> 6 / 10 then
              Inr (PDict [(''status'', PStr ''Good''), (''color'', PStr ''blue''),
                          (''score'', PNum 72)])
            else
              Inr (PDict [(''status'', PStr ''Needs Attention''), (''color'', PStr ''red''),
                          (''score'', PNum 45)])))"

definition nav_entry :: "string \<Rightarrow> string \<Rightarrow> string \<Rightarrow> pyval" where
  "nav_entry label icon path =
     PDict [(''label'', PStr label), (''icon'', PStr icon), (''path'', PStr path)]"

definition recommendations_map :: "(string, pyval) dict" where
  "recommendations_map =
     [(''/'', PList [nav_entry ''View Trends'' ''TrendingUp'' ''/trends'',
                     nav_entry ''Get Insights'' ''Lightbulb'' ''/insights'']),
      (''/trends'', PList [nav_entry ''Check Forecast'' ''Zap'' ''/forecast'',
                           nav_entry ''View Dashboard'' ''BarChart3'' ''/'']),
      (''/insights'', PList [nav_entry ''Chat with AI'' ''MessageCircle'' ''/health-assistant'',
                             nav_entry ''Wellness Hub'' ''Heart'' ''/wellness-center''])]"

definition generate_mock_nav_recommendations :: "string \<Rightarrow> py_error + pyval" where
  "generate_mock_nav_recommendations current_page =
     (case dict_get recommendations_map ''/'' of
        None \<Rightarrow> Inl KeyError
      | Some dflt \<Rightarrow> Inr (dict_get_default recommendations_map current_page dflt))"

definition action_item :: "string \<Rightarrow> string \<Rightarrow> string \<Rightarrow> string \<Rightarrow> pyval" where
  "action_item title msg urgency action =
     PDict [(''title'', PStr title), (''message'', PStr msg), (''urgency'', PStr urgency),
            (''action'', PStr action)]"

definition generate_mock_action_items :: "MetricsInput \<Rightarrow> py_error + pyval" where
  "generate_mock_action_items metrics =
     (case avgSteps metrics of None \<Rightarrow> Inl TypeError | Some st \<Rightarrow>
      case avgSleep metrics of None \<Rightarrow> Inl TypeError | Some sl \<Rightarrow>
        (let items = [];
             items = (if st < 5000
                then items @ [action_item ''Low Activity'' ''Try a 15-minute walk'' ''high''
                                ''/wellness-center'']
                else items);
             items = (if sl < 65 / 10
                then items @ [action_item ''Inadequate Sleep'' ''Aim for 7-9 hours tonight''
                                ''high'' ''/insights'']
                else items);
             items = (if items = []
                then items @ [action_item ''Keep it Up!'' ''Your health looks great'' ''low''
                                ''/'']
                else items)
         in Inr (PList items)))"

text \<open>
  The with-LLM helpers share one shape: without the client library the mock generator
  answers; otherwise the body of the \<open>try\<close> formats the prompt, calls the service and
  decodes the text, and whatever it raises is answered by the mock generator, whose own
  exception is not caught in the helper.
\<close>

definition generate_greeting_with_llm ::
  "bool \<Rightarrow> (navbar_prompt \<Rightarrow> llm_outcome) \<Rightarrow> MetricsInput \<Rightarrow> string \<Rightarrow> py_error + string" where
  "generate_greeting_with_llm gemini_available llm metrics ts =
     (if \<not> gemini_available then generate_mock_greeting metrics
      else
        (let attempt =
               (case format_metrics metrics of
                  Inl e \<Rightarrow> Inl e
                | Inr (st, h, sl, w) \<Rightarrow>
                    (case llm (GreetingPrompt st h sl w ts) of
                       Raises e \<Rightarrow> Inl e
                     | Responds text \<Rightarrow>
                         (let greeting = strip_char (CHR 0x22) (py_strip text);
                              greeting = (if length greeting > 100
                                          then take 97 greeting @ ''...'' else greeting)
                          in Inr greeting)))
         in case attempt of Inr g \<Rightarrow> Inr g | Inl e \<Rightarrow> generate_mock_greeting metrics))"

text \<open>
  The JSON extraction of the other helpers: the text between the first opening and the
  last closing bracket is decoded; a decoding error is an exception of the \<open>try\<close>.
\<close>

definition extract_json ::
  "(string \<Rightarrow> py_error + pyval) \<Rightarrow> char \<Rightarrow> char \<Rightarrow> string \<Rightarrow> py_error + pyval option" where
  "extract_json loads opening closing response_text =
     (let text = py_strip response_text;
          start = find_char opening text;
          stop = rfind_char closing text + 1
      in if start \<noteq> - 1 \<and> stop \<noteq> - 1 then
           (case loads (py_slice text start stop) of Inl e \<Rightarrow> Inl e | Inr v \<Rightarrow> Inr (Some v))
         else Inr None)"

definition generate_health_status_with_llm ::
  "bool \<Rightarrow> (string \<Rightarrow> py_error + pyval) \<Rightarrow> (navbar_prompt \<Rightarrow> llm_outcome) \<Rightarrow> MetricsInput
     \<Rightarrow> py_error + pyval" where
  "generate_health_status_with_llm gemini_available loads llm metrics =
     (if \<not> gemini_available then generate_mock_health_status metrics
      else
        (let attempt =
               (case format_metrics metrics of
                  Inl e \<Rightarrow> Inl e
                | Inr (st, h, sl, w) \<Rightarrow>
                    (case llm (StatusPrompt st h sl w) of
                       Raises e \<Rightarrow> Inl e
                     | Responds text \<Rightarrow>
                         (case extract_json loads (CHR ''{'') (CHR ''}'') text of
                            Inl e \<Rightarrow> Inl e
                          | Inr (Some v) \<Rightarrow> Inr v
                          | Inr None \<Rightarrow> generate_mock_health_status metrics)))
         in case attempt of Inr v \<Rightarrow> Inr v | Inl e \<Rightarrow> generate_mock_health_status metrics))"

definition generate_nav_recommendations_with_llm ::
  "bool \<Rightarrow> (string \<Rightarrow> py_error + pyval) \<Rightarrow> (navbar_prompt \<Rightarrow> llm_outcome) \<Rightarrow> MetricsInput
     \<Rightarrow> string \<Rightarrow> py_error + pyval" where
  "generate_nav_recommendations_with_llm gemini_available loads llm metrics current_page =
     (if \<not> gemini_available then generate_mock_nav_recommendations current_page
      else
        (let attempt =
               (case format_metrics metrics of
                  Inl e \<Rightarrow> Inl e
                | Inr (st, h, sl, w) \<Rightarrow>
                    (case llm (NavPrompt st h sl w current_page) of
                       Raises e \<Rightarrow> Inl e
                     | Responds text \<Rightarrow>
                         (case extract_json loads (CHR ''['') (CHR '']'') text of
                            Inl e \<Rightarrow> Inl e
                          | Inr (Some v) \<Rightarrow> Inr v
                          | Inr None \<Rightarrow> generate_mock_nav_recommendations current_page)))
         in case attempt of
              Inr v \<Rightarrow> Inr v
            | Inl e \<Rightarrow> generate_mock_nav_recommendations current_page))"

definition generate_action_items_with_llm ::
  "bool \<Rightarrow> (string \<Rightarrow> py_error + pyval) \<Rightarrow> (navbar_prompt \<Rightarrow> llm_outcome) \<Rightarrow> MetricsInput
     \<Rightarrow> py_error + pyval" where
  "generate_action_items_with_llm gemini_available loads llm metrics =
     (if \<not> gemini_available then generate_mock_action_items metrics
      else
        (let attempt =
               (case format_metrics metrics of
                  Inl e \<Rightarrow> Inl e
                | Inr (st, h, sl, w) \<Rightarrow>
                    (case llm (ActionPrompt st h sl w) of
                       Raises e \<Rightarrow> Inl e
                     | Responds text \<Rightarrow>
                         (case extract_json loads (CHR ''['') (CHR '']'') text of
                            Inl e \<Rightarrow> Inl e
                          | Inr (Some v) \<Rightarrow> Inr v
                          | Inr None \<Rightarrow> generate_mock_action_items metrics)))
         in case attempt of Inr v \<Rightarrow> Inr v | Inl e \<Rightarrow> generate_mock_action_items metrics))"

text \<open>
  An anomaly of a health-alert request is a dict; only its \<open>reason\<close> is read
  (\<open>a.get('reason', ...)\<close>).
\<close>

definition generate_mock_alert :: "(string, pyval) dict list option \<Rightarrow> py_error + pyval" where
  "generate_mock_alert anomalies =
     (case anomalies of
        None \<Rightarrow> Inr PNone
      | Some [] \<Rightarrow> Inr PNone
      | Some (a # rest) \<Rightarrow>
          Inr (PDict [(''type'', PStr ''warning''),
                      (''message'',
                         PStr (str_nat (length (a # rest)) @ '' metrics need attention'')),
                      (''details'', dict_get_default a ''reason''
                                      (PStr ''Review your health data''))]))"

definition alert_reasons :: "(string, pyval) dict list \<Rightarrow> pyval list" where
  "alert_reasons anomalies =
     map (\<lambda>a. dict_get_default a ''reason'' (PStr ''Unknown issue'')) anomalies"

definition generate_health_alert_with_llm ::
  "bool \<Rightarrow> (string \<Rightarrow> py_error + pyval) \<Rightarrow> (navbar_prompt \<Rightarrow> llm_outcome)
     \<Rightarrow> (string, pyval) dict list option \<Rightarrow> py_error + pyval" where
  "generate_health_alert_with_llm gemini_available loads llm anomalies =
     (if \<not> gemini_available \<or> anomalies = None \<or> anomalies = Some []
      then generate_mock_alert anomalies
      else
        (let attempt =
               (case llm (AlertPrompt
                      (alert_reasons (case anomalies of None \<Rightarrow> [] | Some xs \<Rightarrow> xs))) of
                  Raises e \<Rightarrow> Inl e
                | Responds text \<Rightarrow>
                    (case extract_json loads (CHR ''{'') (CHR ''}'') text of
                       Inl e \<Rightarrow> Inl e
                     | Inr (Some v) \<Rightarrow> Inr v
                     | Inr None \<Rightarrow> generate_mock_alert anomalies))
         in case attempt of Inr v \<Rightarrow> Inr v | Inl e \<Rightarrow> generate_mock_alert anomalies))"

text \<open>The routes: the helper's result is the body of a 200; its exception becomes a 500.\<close>

definition navbar_greeting ::
  "bool \<Rightarrow> (navbar_prompt \<Rightarrow> llm_outcome) \<Rightarrow> NavGreetingRequest \<Rightarrow> string http_response" where
  "navbar_greeting gemini_available llm request =
     (case generate_greeting_with_llm gemini_available llm (ngr_metrics request)
             (ngr_timestamp request) of
        Inr greeting \<Rightarrow> Http200 greeting
      | Inl e \<Rightarrow> Http500 e)"

definition health_status_badge ::
  "bool \<Rightarrow> (string \<Rightarrow> py_error + pyval) \<Rightarrow> (navbar_prompt \<Rightarrow> llm_outcome) \<Rightarrow> MetricsInput
     \<Rightarrow> pyval http_response" where
  "health_status_badge gemini_available loads llm metrics =
     (case generate_health_status_with_llm gemini_available loads llm metrics of
        Inr status \<Rightarrow> Http200 status
      | Inl e \<Rightarrow> Http500 e)"

definition nav_recommendations ::
  "bool \<Rightarrow> (string \<Rightarrow> py_error + pyval) \<Rightarrow> (navbar_prompt \<Rightarrow> llm_outcome)
     \<Rightarrow> NavRecommendationsRequest \<Rightarrow> pyval http_response" where
  "nav_recommendations gemini_available loads llm request =
     (case generate_nav_recommendations_with_llm gemini_available loads llm
             (nrr_metrics request) (nrr_currentPage request) of
        Inr recs \<Rightarrow> Http200 recs
      | Inl e \<Rightarrow> Http500 e)"

definition action_items ::
  "bool \<Rightarrow> (string \<Rightarrow> py_error + pyval) \<Rightarrow> (navbar_prompt \<Rightarrow> llm_outcome) \<Rightarrow> MetricsInput
     \<Rightarrow> pyval http_response" where
  "action_items gemini_available loads llm metrics =
     (case generate_action_items_with_llm gemini_available loads llm metrics of
        Inr actions \<Rightarrow> Http200 actions
      | Inl e \<Rightarrow> Http500 e)"

definition health_alert ::
  "bool \<Rightarrow> (string \<Rightarrow> py_error + pyval) \<Rightarrow> (navbar_prompt \<Rightarrow> llm_outcome)
     \<Rightarrow> (string, pyval) dict list option \<Rightarrow> pyval http_response" where
  "health_alert gemini_available loads llm anomalies =
     (case generate_health_alert_with_llm gemini_available loads llm anomalies of
        Inr alert \<Rightarrow> Http200 alert
      | Inl e \<Rightarrow> Http500 e)"

text \<open>Metrics without a step count, as the JSON body \<open>{"avgSteps": null}\<close> gives them.\<close>

definition null_steps_metrics :: MetricsInput where
  "null_steps_metrics =
     \<lparr>avgSteps = None, avgHeartRate = Some 0, avgSleep = Some 0, avgWater = Some 0\<rparr>"

definition complete_metrics :: "MetricsInput \<Rightarrow> bool" where
  "complete_metrics metrics =
     (avgSteps metrics \<noteq> None \<and> avgHeartRate metrics \<noteq> None
      \<and> avgSleep metrics \<noteq> None \<and> avgWater metrics \<noteq> None)"

section \<open>session\_memory.py\<close>

text \<open>
  The dataclass \<open>HealthSession\<close> with the types of its annotations. The \<open>data\<close> dict of
  \<open>create_session\<close> is read at four keys, each possibly absent. An entry of
  \<open>session_state\<close> has the keys \<open>status\<close>, \<open>last_activity\<close> and \<open>context\<close>, and
  whatever further keys \<open>update_session_state\<close> wrote.
\<close>

record HealthSession =
  session_id :: string
  user_id :: string
  timestamp :: int
  data_summary :: pyval
  analysis_results :: pyval
  wellness_score :: real
  recommendations :: "string list"

record session_data =
  sd_summary :: "pyval option"
  sd_analysis :: "pyval option"
  sd_wellness_score :: "real option"
  sd_recommendations :: "string list option"

record session_entry =
  se_status :: string
  se_last_activity :: int
  se_context :: session_data
  se_extra :: "(string, pyval) dict"

record state_updates =
  su_status :: "string option"
  su_last_activity :: "int option"
  su_context :: "session_data option"
  su_extra :: "(string, pyval) dict"

record InMemorySessionService =
  active_sessions :: "(string, HealthSession) dict"
  session_state :: "(string, session_entry) dict"

definition microseconds_per_hour :: int where
  "microseconds_per_hour = 3600000000"

text \<open>
  \<open>create_session\<close> reads the clock three times; \<open>strftime\<close> renders a time to the
  second.
\<close>

definition create_session ::
  "(int \<Rightarrow> string) \<Rightarrow> int \<Rightarrow> int \<Rightarrow> int \<Rightarrow> string \<Rightarrow> session_data
     \<Rightarrow> InMemorySessionService \<Rightarrow> string \<times> InMemorySessionService" where
  "create_session strftime now1 now2 now3 uid data svc =
     (let sid = uid @ ''_'' @ strftime now1;
          session = \<lparr>session_id = sid, user_id = uid, timestamp = now2,
             data_summary = (case sd_summary data of None \<Rightarrow> PDict [] | Some v \<Rightarrow> v),
             analysis_results = (case sd_analysis data of None \<Rightarrow> PDict [] | Some v \<Rightarrow> v),
             wellness_score = (case sd_wellness_score data of None \<Rightarrow> 0 | Some v \<Rightarrow> v),
             recommendations =
               (case sd_recommendations data of None \<Rightarrow> [] | Some v \<Rightarrow> v)\<rparr>
      in (sid,
          svc\<lparr>active_sessions := dict_set sid session (active_sessions svc),
              session_state :=
                dict_set sid \<lparr>se_status = ''active'', se_last_activity = now3,
                               se_context = data, se_extra = []\<rparr> (session_state svc)\<rparr>))"

definition get_session :: "InMemorySessionService \<Rightarrow> string \<Rightarrow> HealthSession option" where
  "get_session svc sid = dict_get (active_sessions svc) sid"

definition apply_updates :: "state_updates \<Rightarrow> session_entry \<Rightarrow> session_entry" where
  "apply_updates updates entry =
     \<lparr>se_status = (case su_status updates of None \<Rightarrow> se_status entry | Some v \<Rightarrow> v),
      se_last_activity =
        (case su_last_activity updates of None \<Rightarrow> se_last_activity entry | Some v \<Rightarrow> v),
      se_context = (case su_context updates of None \<Rightarrow> se_context entry | Some v \<Rightarrow> v),
      se_extra = fold (\<lambda>kv d. dict_set (fst kv) (snd kv) d) (su_extra updates)
                   (se_extra entry)\<rparr>"

definition update_session_state ::
  "int \<Rightarrow> string \<Rightarrow> state_updates \<Rightarrow> InMemorySessionService \<Rightarrow> InMemorySessionService" where
  "update_session_state now sid updates svc =
     (case dict_get (session_state svc) sid of
        None \<Rightarrow> svc
      | Some entry \<Rightarrow>
          svc\<lparr>session_state :=
            dict_set sid ((apply_updates updates entry)\<lparr>se_last_activity := now\<rparr>)
              (session_state svc)\<rparr>)"

definition pause_session :: "string \<Rightarrow> InMemorySessionService \<Rightarrow> InMemorySessionService" where
  "pause_session sid svc =
     (case dict_get (session_state svc) sid of
        None \<Rightarrow> svc
      | Some entry \<Rightarrow>
          svc\<lparr>session_state :=
            dict_set sid (entry\<lparr>se_status := ''paused''\<rparr>) (session_state svc)\<rparr>)"

definition resume_session ::
  "int \<Rightarrow> string \<Rightarrow> InMemorySessionService \<Rightarrow> InMemorySessionService" where
  "resume_session now sid svc =
     (case dict_get (session_state svc) sid of
        None \<Rightarrow> svc
      | Some entry \<Rightarrow>
          svc\<lparr>session_state :=
            dict_set sid (entry\<lparr>se_status := ''active'', se_last_activity := now\<rparr>)
              (session_state svc)\<rparr>)"

definition pop_session :: "string \<Rightarrow> InMemorySessionService \<Rightarrow> InMemorySessionService" where
  "pop_session sid svc =
     svc\<lparr>active_sessions := dict_pop sid (active_sessions svc),
         session_state := dict_pop sid (session_state svc)\<rparr>"

definition cleanup_expired_sessions ::
  "int \<Rightarrow> int \<Rightarrow> InMemorySessionService \<Rightarrow> InMemorySessionService \<times> nat" where
  "cleanup_expired_sessions now hours svc =
     (let cutoff = now - hours * microseconds_per_hour;
          expired = map fst (filter (\<lambda>kv. se_last_activity (snd kv) < cutoff)
                               (session_state svc))
      in (fold pop_session expired svc, length expired))"

text \<open>
  A session is expired at a cutoff when its state entry's last activity is strictly
  before the cutoff.
\<close>

definition is_expired :: "int \<Rightarrow> InMemorySessionService \<Rightarrow> string \<Rightarrow> bool" where
  "is_expired cutoff svc sid =
     (case dict_get (session_state svc) sid of
        None \<Rightarrow> False
      | Some entry \<Rightarrow> se_last_activity entry < cutoff)"

subsection \<open>MemoryBank and HealthMemoryManager\<close>

text \<open>
  The table \<open>sessions\<close> has the seven columns of \<open>HealthSession\<close> with \<open>session_id\<close>
  as primary key; a row is kept as the session it encodes. The table \<open>user_patterns\<close>
  has the primary key \<open>(user_id, pattern_type)\<close>. \<open>INSERT OR REPLACE\<close> deletes the rows
  with the same key and inserts the new row.
\<close>

record user_pattern =
  pt_user_id :: string
  pt_pattern_type :: string
  pt_pattern_data :: pyval
  pt_confidence :: real
  pt_last_updated :: int

record MemoryBank =
  sessions_table :: "HealthSession list"
  user_patterns_table :: "user_pattern list"

record HealthMemoryManager =
  session_service :: InMemorySessionService
  memory_bank :: MemoryBank

definition store_session :: "MemoryBank \<Rightarrow> HealthSession \<Rightarrow> MemoryBank" where
  "store_session bank session =
     bank\<lparr>sessions_table :=
       filter (\<lambda>row. session_id row \<noteq> session_id session) (sessions_table bank)
         @ [session]\<rparr>"

definition microseconds_per_day :: int where
  "microseconds_per_day = 86400000000"

text \<open>Rows of the user since the cutoff, newest first.\<close>

definition get_user_history :: "int \<Rightarrow> MemoryBank \<Rightarrow> string \<Rightarrow> int \<Rightarrow> HealthSession list" where
  "get_user_history now bank uid days =
     (let cutoff = now - days * microseconds_per_day
      in rev (sort_key timestamp
           (filter (\<lambda>row. user_id row = uid \<and> timestamp row \<ge> cutoff)
              (sessions_table bank))))"

definition store_user_pattern ::
  "int \<Rightarrow> MemoryBank \<Rightarrow> string \<Rightarrow> string \<Rightarrow> pyval \<Rightarrow> real \<Rightarrow> MemoryBank" where
  "store_user_pattern now bank uid ptype pdata conf =
     bank\<lparr>user_patterns_table :=
       filter (\<lambda>row. \<not> (pt_user_id row = uid \<and> pt_pattern_type row = ptype))
         (user_patterns_table bank)
       @ [\<lparr>pt_user_id = uid, pt_pattern_type = ptype, pt_pattern_data = pdata,
            pt_confidence = conf, pt_last_updated = now\<rparr>]\<rparr>"

definition identify_patterns :: "int \<Rightarrow> int \<Rightarrow> MemoryBank \<Rightarrow> HealthSession \<Rightarrow> MemoryBank" where
  "identify_patterns now1 now2 bank session =
     (let uid = user_id session;
          history = get_user_history now1 bank uid 14
      in if length history \<ge> 3 then
           (let sleep_scores = map wellness_score history
            in if length sleep_scores \<ge> 3 then
                 (let avg_score = sum_list sleep_scores / real (length sleep_scores);
                      tr = (if hd sleep_scores > last sleep_scores
                            then ''improving'' else ''stable'')
                  in store_user_pattern now2 bank uid ''wellness_trend''
                       (PDict [(''average_score'', PNum avg_score),
                               (''trend'', PStr tr),
                               (''consistency'',
                                  PStr (if fold max sleep_scores (hd sleep_scores)
                                           - fold min sleep_scores (hd sleep_scores) < 10
                                        then ''high'' else ''variable''))])
                       (8 / 10))
               else bank)
         else bank)"

definition finalize_session ::
  "int \<Rightarrow> int \<Rightarrow> string \<Rightarrow> HealthMemoryManager \<Rightarrow> HealthMemoryManager" where
  "finalize_session now1 now2 sid mgr =
     (case get_session (session_service mgr) sid of
        None \<Rightarrow> mgr
      | Some session \<Rightarrow>
          mgr\<lparr>memory_bank :=
            identify_patterns now1 now2 (store_session (memory_bank mgr) session) session\<rparr>)"

section \<open>Properties of the rule-based agents\<close>

lemma round_half_even_bounds:
  assumes "of_int a \<le> y" and "y \<le> of_int b"
  shows "a \<le> round_half_even y \<and> round_half_even y \<le> b"
proof -
  have fl: "a \<le> \<lfloor>y\<rfloor>" using assms(1) by (simp add: le_floor_iff)
  have fu: "\<lfloor>y\<rfloor> \<le> b" using assms(2) by (simp add: floor_le_iff)
  have frac0: "\<lfloor>y\<rfloor> = b \<Longrightarrow> y - of_int \<lfloor>y\<rfloor> = 0"
  proof -
    assume e: "\<lfloor>y\<rfloor> = b"
    have "of_int \<lfloor>y\<rfloor> \<le> y" by simp
    with e assms(2) show ?thesis by simp
  qed
  show ?thesis
    using fl fu frac0 unfolding round_half_even_def Let_def
    by (cases "\<lfloor>y\<rfloor> = b") auto
qed

lemma py_round_1_bounds:
  assumes "0 \<le> x" and "x \<le> 100"
  shows "0 \<le> py_round x 1 \<and> py_round x 1 \<le> 100"
proof -
  have "of_int 0 \<le> x * 10" and "x * 10 \<le> of_int 1000" using assms by simp_all
  then have "0 \<le> round_half_even (x * 10) \<and> round_half_even (x * 10) \<le> 1000"
    by (rule round_half_even_bounds)
  then have "0 \<le> (of_int (round_half_even (x * 10)) :: real)"
    and "(of_int (round_half_even (x * 10)) :: real) \<le> 1000"
    by simp_all
  then show ?thesis by (simp add: py_round_def)
qed

lemma steps_points_bounds: "0 \<le> steps_points s \<and> steps_points s \<le> 25"
  by (simp add: steps_points_def)

lemma sleep_points_bounds: "0 \<le> sleep_points s \<and> sleep_points s \<le> 25"
  by (simp add: sleep_points_def)

lemma heart_rate_points_bounds: "0 \<le> heart_rate_points s \<and> heart_rate_points s \<le> 25"
  by (simp add: heart_rate_points_def)

lemma water_points_bounds: "0 \<le> water_points s \<and> water_points s \<le> 25"
  by (simp add: water_points_def)

lemma steps_points_spec: "steps_points s = clamp25 (spec_steps s)"
  by (simp add: steps_points_def clamp25_def spec_steps_def)

lemma sleep_points_spec: "sleep_points s = clamp25 (spec_sleep s)"
  by (auto simp add: sleep_points_def clamp25_def spec_sleep_def)

lemma heart_rate_points_spec: "heart_rate_points s = clamp25 (spec_heart_rate s)"
  by (auto simp add: heart_rate_points_def clamp25_def spec_heart_rate_def)

lemma water_points_spec: "water_points s = clamp25 (spec_water s)"
  by (simp add: water_points_def clamp25_def spec_water_def)

lemma calculate_wellness_score_sum:
  "calculate_wellness_score summ =
     py_round (steps_points (dict_get_default summ ''steps_avg_7d'' 0)
             + sleep_points (dict_get_default summ ''sleep_avg_7d'' 0)
             + heart_rate_points (dict_get_default summ ''heart_rate_avg_7d'' 0)
             + water_points (dict_get_default summ ''water_avg_7d'' 0)) 1"
  by (simp add: calculate_wellness_score_def Let_def add_divide_distrib)

text \<open>
  C2. Each of the four sub-scores is the specification's piecewise function clamped to the
  interval from 0 to 25, so each lies between 0 and 25; the total is their sum rounded to
  one decimal and lies between 0 and 100; and the summary with steps 10000, sleep 8, heart
  rate 70 and water 2000 scores exactly 100.
\<close>

theorem wellness_score_piecewise_and_bounded:
  "steps_points st = clamp25 (spec_steps st)
   \<and> sleep_points sl = clamp25 (spec_sleep sl)
   \<and> heart_rate_points h = clamp25 (spec_heart_rate h)
   \<and> water_points w = clamp25 (spec_water w)
   \<and> 0 \<le> steps_points st \<and> steps_points st \<le> 25
   \<and> 0 \<le> sleep_points sl \<and> sleep_points sl \<le> 25
   \<and> 0 \<le> heart_rate_points h \<and> heart_rate_points h \<le> 25
   \<and> 0 \<le> water_points w \<and> water_points w \<le> 25
   \<and> calculate_wellness_score summ =
       py_round (steps_points (dict_get_default summ ''steps_avg_7d'' 0)
               + sleep_points (dict_get_default summ ''sleep_avg_7d'' 0)
               + heart_rate_points (dict_get_default summ ''heart_rate_avg_7d'' 0)
               + water_points (dict_get_default summ ''water_avg_7d'' 0)) 1
   \<and> 0 \<le> calculate_wellness_score summ \<and> calculate_wellness_score summ \<le> 100
   \<and> calculate_wellness_score
         [(''steps_avg_7d'', 10000), (''sleep_avg_7d'', 8),
          (''heart_rate_avg_7d'', 70), (''water_avg_7d'', 2000)] = 100"
proof -
  let ?s = "steps_points (dict_get_default summ ''steps_avg_7d'' 0)
          + sleep_points (dict_get_default summ ''sleep_avg_7d'' 0)
          + heart_rate_points (dict_get_default summ ''heart_rate_avg_7d'' 0)
          + water_points (dict_get_default summ ''water_avg_7d'' 0)"
  have "0 \<le> ?s" and "?s \<le> 100"
    using steps_points_bounds [of "dict_get_default summ ''steps_avg_7d'' 0"]
      sleep_points_bounds [of "dict_get_default summ ''sleep_avg_7d'' 0"]
      heart_rate_points_bounds [of "dict_get_default summ ''heart_rate_avg_7d'' 0"]
      water_points_bounds [of "dict_get_default summ ''water_avg_7d'' 0"]
    by linarith+
  then have total: "0 \<le> py_round ?s 1 \<and> py_round ?s 1 \<le> 100"
    by (rule py_round_1_bounds)
  have best: "calculate_wellness_score
      [(''steps_avg_7d'', 10000), (''sleep_avg_7d'', 8),
       (''heart_rate_avg_7d'', 70), (''water_avg_7d'', 2000)] = 100"
    by (simp add: calculate_wellness_score_sum dict_get_default_def steps_points_def
        sleep_points_def heart_rate_points_def water_points_def py_round_def
        round_half_even_def)
  show ?thesis
    using total best steps_points_bounds [of st] sleep_points_bounds [of sl]
      heart_rate_points_bounds [of h] water_points_bounds [of w]
    by (simp add: calculate_wellness_score_sum steps_points_spec sleep_points_spec
        heart_rate_points_spec water_points_spec)
qed

subsection \<open>Anomaly detection\<close>

lemma anomaly_loop_concat: "anomaly_loop ts acc = acc @ concat (map check_item ts)"
  by (induction ts arbitrary: acc) simp_all

lemma anomalies_concat:
  "aa_anomalies (anomaly_analyze data) =
     concat (map check_item (case hd_timeseries data of None \<Rightarrow> [] | Some ts \<Rightarrow> ts))"
  by (simp add: anomaly_analyze_def Let_def anomaly_loop_concat)

lemma check_item_length: "length (check_item item) \<le> 1"
  by (simp add: check_item_def Let_def)

lemma check_item_severities: "map an_severity (check_item item) = spec_severities item"
  by (simp add: check_item_def Let_def spec_severities_def anomaly_rules_def)

lemma check_item_fields:
  "list_all (\<lambda>a. an_date a = item_day item \<and> an_metric a = item_metric item
       \<and> an_value a = (case item_value item of None \<Rightarrow> 0 | Some x \<Rightarrow> x))
     (check_item item)"
  by (simp add: check_item_def Let_def)

text \<open>
  C4. The anomalies are the concatenation, in input order, of what each record yields; a
  record yields at most one anomaly; its severity is that of the first rule of the
  threshold table that matches (heart rate above 100 is high, sleep below 5 is medium,
  steps below 3000 is low) and a record matching no rule yields none; the anomaly carries
  the record's day, metric and value.
\<close>

theorem anomaly_detector_thresholds:
  "aa_anomalies (anomaly_analyze data) =
     concat (map check_item (case hd_timeseries data of None \<Rightarrow> [] | Some ts \<Rightarrow> ts))
   \<and> length (check_item item) \<le> 1
   \<and> map an_severity (check_item item) = spec_severities item
   \<and> list_all (\<lambda>a. an_date a = item_day item \<and> an_metric a = item_metric item
          \<and> an_value a = (case item_value item of None \<Rightarrow> 0 | Some x \<Rightarrow> x))
        (check_item item)"
  using anomalies_concat check_item_length check_item_severities check_item_fields
  by blast

theorem anomaly_detector_thresholds_witness:
  "aa_anomalies (anomaly_analyze
      \<lparr>hd_summary = None,
       hd_timeseries = Some
         [\<lparr>item_day = Some ''2024-01-02'', item_metric = Some ''heart_rate'',
           item_value = Some 105\<rparr>,
          \<lparr>item_day = Some ''2024-01-02'', item_metric = Some ''steps'',
           item_value = Some 6500\<rparr>,
          \<lparr>item_day = Some ''2024-01-02'', item_metric = Some ''sleep'',
           item_value = Some (45 / 10)\<rparr>],
       hd_agent_results = None\<rparr>) =
     [\<lparr>an_date = Some ''2024-01-02'', an_metric = Some ''heart_rate'', an_value = 105,
       an_severity = ''high'', an_message = ''Elevated resting heart rate detected''\<rparr>,
      \<lparr>an_date = Some ''2024-01-02'', an_metric = Some ''sleep'', an_value = 45 / 10,
       an_severity = ''medium'', an_message = ''Insufficient sleep duration''\<rparr>]
   \<and> spec_severities \<lparr>item_day = Some ''2024-01-02'', item_metric = Some ''steps'',
         item_value = Some 6500\<rparr> = []"
  using anomaly_detector_thresholds
    [of "\<lparr>hd_summary = None,
       hd_timeseries = Some
         [\<lparr>item_day = Some ''2024-01-02'', item_metric = Some ''heart_rate'',
           item_value = Some 105\<rparr>,
          \<lparr>item_day = Some ''2024-01-02'', item_metric = Some ''steps'',
           item_value = Some 6500\<rparr>,
          \<lparr>item_day = Some ''2024-01-02'', item_metric = Some ''sleep'',
           item_value = Some (45 / 10)\<rparr>],
       hd_agent_results = None\<rparr>"
      "\<lparr>item_day = Some ''2024-01-02'', item_metric = Some ''steps'',
         item_value = Some 6500\<rparr>"]
  by (simp add: check_item_def)

text \<open>
  C5. Permuting the input records leaves the set of anomalies unchanged.
\<close>

theorem anomaly_detector_order_independent:
  assumes "mset ts' = mset ts"
  shows "set (aa_anomalies (anomaly_analyze (data\<lparr>hd_timeseries := Some ts'\<rparr>))) =
         set (aa_anomalies (anomaly_analyze (data\<lparr>hd_timeseries := Some ts\<rparr>)))"
proof -
  have "set ts' = set ts" using assms by (rule mset_eq_setD)
  then show ?thesis by (simp add: anomalies_concat)
qed

theorem anomaly_detector_order_independent_witness:
  "set (aa_anomalies (anomaly_analyze
      \<lparr>hd_summary = None,
       hd_timeseries = Some
         [\<lparr>item_day = Some ''2024-01-02'', item_metric = Some ''sleep'',
           item_value = Some 4\<rparr>,
          \<lparr>item_day = Some ''2024-01-01'', item_metric = Some ''steps'',
           item_value = Some 2000\<rparr>],
       hd_agent_results = None\<rparr>)) =
   set (aa_anomalies (anomaly_analyze
      \<lparr>hd_summary = None,
       hd_timeseries = Some
         [\<lparr>item_day = Some ''2024-01-01'', item_metric = Some ''steps'',
           item_value = Some 2000\<rparr>,
          \<lparr>item_day = Some ''2024-01-02'', item_metric = Some ''sleep'',
           item_value = Some 4\<rparr>],
       hd_agent_results = None\<rparr>))"
proof -
  let ?a = "\<lparr>item_day = Some ''2024-01-02'', item_metric = Some ''sleep'',
             item_value = Some (4::real)\<rparr>"
  let ?b = "\<lparr>item_day = Some ''2024-01-01'', item_metric = Some ''steps'',
             item_value = Some (2000::real)\<rparr>"
  have p: "mset [?a, ?b] = mset [?b, ?a]" by (simp add: add.commute)
  show ?thesis
    using anomaly_detector_order_independent
      [OF p, of "\<lparr>hd_summary = None, hd_timeseries = None, hd_agent_results = None\<rparr>"]
    by simp
qed

subsection \<open>Trend detection\<close>

lemma dict_get_set:
  "dict_get (dict_set k v d) k' = (if k' = k then Some v else dict_get d k')"
  by (induction d) (auto simp: dict_get_def)

lemma item_values_present:
  "\<forall>i\<in>set xs. item_value i \<noteq> None \<Longrightarrow>
   item_values xs = Inr (map (\<lambda>item. case item_value item of None \<Rightarrow> 0 | Some v \<Rightarrow> v) xs)"
  by (induction xs) auto

lemma item_values_error: "item_values xs = Inl e \<Longrightarrow> e = KeyError"
  by (induction xs arbitrary: e) (auto split: option.splits sum.splits)

lemma item_values_missing:
  "\<not> list_all (\<lambda>item. item_value item \<noteq> None) xs \<Longrightarrow> item_values xs = Inl KeyError"
  by (induction xs) (auto split: option.splits sum.splits dest: item_values_error)

lemma metric_trend_present:
  assumes "length (filter (\<lambda>item. item_metric item = Some m) ts) < 2
           \<or> list_all (\<lambda>item. item_value item \<noteq> None)
                (filter (\<lambda>item. item_metric item = Some m) ts)"
  shows "metric_trend ops m ts =
     Inr (let vs = observations m ts
          in if length vs \<ge> 2
             then Some \<lparr>trend = (if last vs > hd vs then ''increasing'' else ''decreasing''),
                    change_percent =
                      (if hd vs > 0
                       then num_round ops
                              (num_mul ops (num_div ops (num_sub ops (last vs) (hd vs)) (hd vs))
                                 100) 2
                       else 0),
                    recommendation =
                      get_recommendation m
                        (if last vs > hd vs then ''increasing'' else ''decreasing'')
                        (if hd vs > 0
                         then num_mul ops (num_div ops (num_sub ops (last vs) (hd vs)) (hd vs))
                                100
                         else 0)\<rparr>
             else None)"
proof (cases "length (filter (\<lambda>item. item_metric item = Some m) ts) < 2")
  case True
  then show ?thesis by (simp add: metric_trend_def Let_def observations_def)
next
  case False
  with assms have "\<forall>i\<in>set (filter (\<lambda>item. item_metric item = Some m) ts). item_value i \<noteq> None"
    by (simp only: list_all_iff) blast
  then have "item_values (filter (\<lambda>item. item_metric item = Some m) ts) = Inr (observations m ts)"
    unfolding observations_def by (rule item_values_present)
  then show ?thesis
    by (simp add: metric_trend_def Let_def observations_def)
qed

lemma metric_trend_missing:
  assumes "\<not> (length (filter (\<lambda>item. item_metric item = Some m) ts) < 2
           \<or> list_all (\<lambda>item. item_value item \<noteq> None)
                (filter (\<lambda>item. item_metric item = Some m) ts))"
  shows "metric_trend ops m ts = Inl KeyError"
proof -
  from assms have
    "item_values (filter (\<lambda>item. item_metric item = Some m) ts) = Inl KeyError"
    using item_values_missing by blast
  with assms show ?thesis by (simp add: metric_trend_def Let_def)
qed

lemma metric_trend_error: "metric_trend ops m ts = Inl e \<Longrightarrow> e = KeyError"
  by (auto simp: metric_trend_def Let_def split: if_splits sum.splits dest: item_values_error)

lemma trend_loop_lookup:
  assumes "\<forall>n\<in>set names. \<exists>r. metric_trend ops n ts = Inr r"
  shows "\<exists>d. trend_loop ops names ts acc = Inr d \<and>
           (\<forall>m. dict_get d m =
              (if m \<in> set names
               then (case metric_trend ops m ts of Inr (Some r) \<Rightarrow> Some r | _ \<Rightarrow> dict_get acc m)
               else dict_get acc m))"
  using assms
proof (induction names arbitrary: acc)
  case Nil
  then show ?case by simp
next
  case (Cons n names)
  from Cons.prems obtain r where r: "metric_trend ops n ts = Inr r" by auto
  from Cons.prems have rest: "\<forall>n\<in>set names. \<exists>r. metric_trend ops n ts = Inr r" by simp
  show ?case
  proof (cases r)
    case None
    from Cons.IH [OF rest, of acc] obtain d where
      d: "trend_loop ops names ts acc = Inr d" and
      l: "\<forall>m. dict_get d m =
              (if m \<in> set names
               then (case metric_trend ops m ts of Inr (Some r) \<Rightarrow> Some r | _ \<Rightarrow> dict_get acc m)
               else dict_get acc m)" by blast
    show ?thesis using r None d l by auto
  next
    case (Some tr)
    from Cons.IH [OF rest, of "dict_set n tr acc"] obtain d where
      d: "trend_loop ops names ts (dict_set n tr acc) = Inr d" and
      l: "\<forall>m. dict_get d m =
              (if m \<in> set names
               then (case metric_trend ops m ts of Inr (Some r) \<Rightarrow> Some r
                     | _ \<Rightarrow> dict_get (dict_set n tr acc) m)
               else dict_get (dict_set n tr acc) m)" by blast
    show ?thesis using r Some d l
      by (auto simp: dict_get_set split: sum.splits option.splits)
  qed
qed

lemma trend_loop_error:
  assumes "\<exists>n\<in>set names. metric_trend ops n ts = Inl KeyError"
  shows "trend_loop ops names ts acc = Inl KeyError"
  using assms
proof (induction names arbitrary: acc)
  case Nil
  then show ?case by simp
next
  case (Cons n names)
  show ?case
  proof (cases "metric_trend ops n ts")
    case (Inl e)
    then have "e = KeyError" by (rule metric_trend_error)
    with Inl show ?thesis by simp
  next
    case (Inr r)
    with Cons.prems have "\<exists>n\<in>set names. metric_trend ops n ts = Inl KeyError" by auto
    then have "\<And>acc. trend_loop ops names ts acc = Inl KeyError" by (rule Cons.IH)
    with Inr show ?thesis by (cases r) simp_all
  qed
qed

text \<open>
  C3, as stated, fails on the series \<open>unsorted_series\<close>. The detector compares the first
  and last record in input order (steps: increasing, where the chronological order gives
  decreasing), rounds the percentage to two decimals (sleep: 16.67 instead of 50/3), and
  reports 0 whenever the first value is not positive (water: 0 instead of -200).
\<close>

theorem trend_detector_counterexample:
  "trend_analyze exact_ops \<lparr>hd_summary = None, hd_timeseries = Some unsorted_series,
       hd_agent_results = None\<rparr> =
     Inr \<lparr>ta_trends =
           [(''steps'', \<lparr>trend = ''increasing'', change_percent = 3333 / 100,
               recommendation = ''Maintain current healthy patterns''\<rparr>),
            (''sleep'', \<lparr>trend = ''increasing'', change_percent = 1667 / 100,
               recommendation = ''Maintain current healthy patterns''\<rparr>),
            (''water'', \<lparr>trend = ''increasing'', change_percent = 0,
               recommendation = ''Maintain current healthy patterns''\<rparr>)],
         ta_confidence = 85 / 100\<rparr>
   \<and> spec_trend ''steps'' unsorted_series = Some (''decreasing'', - 25)
   \<and> spec_trend ''sleep'' unsorted_series = Some (''increasing'', 50 / 3)
   \<and> spec_trend ''water'' unsorted_series = Some (''increasing'', - 200)"
  by (simp add: trend_analyze_def tracked_metrics_def metric_trend_def unsorted_series_def
      get_recommendation_def exact_ops_def py_round_def round_half_even_def spec_trend_def
      chronological_def less_eq_char_def less_char_def)

text \<open>
  The counterexample is evaluated with exact arithmetic. The direction of the steps and
  the 0 of the water do not depend on the arithmetic at all.
\<close>

lemma unsorted_series_any_arithmetic:
  "\<exists>r. trend_analyze ops \<lparr>hd_summary = None, hd_timeseries = Some unsorted_series,
            hd_agent_results = None\<rparr> = Inr r
      \<and> map_option trend (dict_get (ta_trends r) ''steps'') = Some ''increasing''
      \<and> map_option change_percent (dict_get (ta_trends r) ''water'') = Some 0"
  by (simp add: trend_analyze_def tracked_metrics_def metric_trend_def unsorted_series_def
      dict_get_def Let_def)

text \<open>
  C3, amended. Take a series in which the records of every tracked metric that has at
  least two records all carry a value (otherwise the detector raises). For every tracked
  metric the detector then returns a result that has an entry for the metric exactly when
  the series holds at least two records of it; the direction is increasing exactly when
  the last value in input order strictly exceeds the first value in input order, and
  decreasing otherwise; the percentage is 0 when the first value is zero or negative, and
  otherwise what Python's arithmetic gives for
  \<open>round(((last - first) / first) * 100, 2)\<close>.
\<close>

theorem trend_detector_input_order:
  assumes "trend_inputs_valued ts"
    and "m \<in> set tracked_metrics"
    and "hd_timeseries data = Some ts"
  shows "\<exists>r. trend_analyze ops data = Inr r \<and>
     dict_get (ta_trends r) m =
       (let vs = observations m ts
        in if length vs \<ge> 2
           then Some \<lparr>trend = (if last vs > hd vs then ''increasing'' else ''decreasing''),
                  change_percent =
                    (if hd vs > 0
                     then num_round ops
                            (num_mul ops (num_div ops (num_sub ops (last vs) (hd vs)) (hd vs))
                               100) 2
                     else 0),
                  recommendation =
                    get_recommendation m
                      (if last vs > hd vs then ''increasing'' else ''decreasing'')
                      (if hd vs > 0
                       then num_mul ops (num_div ops (num_sub ops (last vs) (hd vs)) (hd vs))
                              100
                       else 0)\<rparr>
           else None)"
proof -
  have v: "\<And>n. n \<in> set tracked_metrics \<Longrightarrow>
      length (filter (\<lambda>item. item_metric item = Some n) ts) < 2
      \<or> list_all (\<lambda>item. item_value item \<noteq> None)
           (filter (\<lambda>item. item_metric item = Some n) ts)"
    using assms(1) unfolding trend_inputs_valued_def list_all_iff by blast
  have ok: "\<forall>n\<in>set tracked_metrics. \<exists>r. metric_trend ops n ts = Inr r"
    using metric_trend_present [OF v] by blast
  from trend_loop_lookup [OF ok, of "[]"] obtain d where
    d: "trend_loop ops tracked_metrics ts [] = Inr d" and
    l: "\<forall>m. dict_get d m =
              (if m \<in> set tracked_metrics
               then (case metric_trend ops m ts of Inr (Some r) \<Rightarrow> Some r | _ \<Rightarrow> dict_get [] m)
               else dict_get [] m)" by blast
  have "dict_get d m = (case metric_trend ops m ts of Inr (Some r) \<Rightarrow> Some r | _ \<Rightarrow> None)"
    using l assms(2) by (simp add: dict_get_def split: sum.splits option.splits)
  then have "dict_get d m =
       (let vs = observations m ts
        in if length vs \<ge> 2
           then Some \<lparr>trend = (if last vs > hd vs then ''increasing'' else ''decreasing''),
                  change_percent =
                    (if hd vs > 0
                     then num_round ops
                            (num_mul ops (num_div ops (num_sub ops (last vs) (hd vs)) (hd vs))
                               100) 2
                     else 0),
                  recommendation =
                    get_recommendation m
                      (if last vs > hd vs then ''increasing'' else ''decreasing'')
                      (if hd vs > 0
                       then num_mul ops (num_div ops (num_sub ops (last vs) (hd vs)) (hd vs))
                              100
                       else 0)\<rparr>
           else None)"
    by (simp add: metric_trend_present [OF v [OF assms(2)]] Let_def)
  then show ?thesis
    using d assms(3) by (simp add: trend_analyze_def)
qed

theorem trend_detector_input_order_witness:
  "trend_inputs_valued partly_valued_series
   \<and> ''steps'' \<in> set tracked_metrics
   \<and> (\<exists>r. trend_analyze exact_ops
             \<lparr>hd_summary = None, hd_timeseries = Some partly_valued_series,
              hd_agent_results = None\<rparr> = Inr r
          \<and> dict_get (ta_trends r) ''steps'' =
              Some \<lparr>trend = ''increasing'', change_percent = 3333 / 100,
                recommendation = ''Maintain current healthy patterns''\<rparr>)"
proof -
  have a: "trend_inputs_valued partly_valued_series"
    by (simp add: trend_inputs_valued_def tracked_metrics_def partly_valued_series_def
        unsorted_series_def)
  have b: "''steps'' \<in> set tracked_metrics" by (simp add: tracked_metrics_def)
  have c: "hd_timeseries \<lparr>hd_summary = None, hd_timeseries = Some partly_valued_series,
             hd_agent_results = None\<rparr> = Some partly_valued_series" by simp
  have o: "observations ''steps'' partly_valued_series = [3000, 4000]"
    by (simp add: observations_def partly_valued_series_def unsorted_series_def)
  show ?thesis
    using a b trend_detector_input_order [OF a b c, of exact_ops]
    by (simp add: o get_recommendation_def exact_ops_def py_round_def round_half_even_def)
qed

text \<open>
  The condition on the series is exactly what keeps the detector from raising: on any
  other series \<open>item['value']\<close> fails on a record of a tracked metric, where the anomaly
  detector reads the value with a default.
\<close>

lemma trend_analyze_missing_value:
  assumes "\<not> trend_inputs_valued ts" and "hd_timeseries data = Some ts"
  shows "trend_analyze ops data = Inl KeyError"
proof -
  from assms(1) obtain n where n: "n \<in> set tracked_metrics"
    and "\<not> (length (filter (\<lambda>item. item_metric item = Some n) ts) < 2
           \<or> list_all (\<lambda>item. item_value item \<noteq> None)
                (filter (\<lambda>item. item_metric item = Some n) ts))"
    unfolding trend_inputs_valued_def list_all_iff [of _ tracked_metrics] by blast
  then have "metric_trend ops n ts = Inl KeyError" using metric_trend_missing by blast
  with n have "\<exists>n\<in>set tracked_metrics. metric_trend ops n ts = Inl KeyError" by blast
  then have "trend_loop ops tracked_metrics ts [] = Inl KeyError" by (rule trend_loop_error)
  then show ?thesis using assms(2) by (simp add: trend_analyze_def)
qed

section \<open>Properties of the session store\<close>

lemma fold_pop_session:
  "active_sessions (fold pop_session ks svc) =
     filter (\<lambda>kv. fst kv \<notin> set ks) (active_sessions svc)
   \<and> session_state (fold pop_session ks svc) =
     filter (\<lambda>kv. fst kv \<notin> set ks) (session_state svc)"
proof (induction ks arbitrary: svc)
  case Nil
  then show ?case by simp
next
  case (Cons k ks)
  have a: "filter (\<lambda>kv. fst kv \<notin> set ks) (filter (\<lambda>kv. fst kv \<noteq> k) (active_sessions svc)) =
           filter (\<lambda>kv. fst kv \<notin> set (k # ks)) (active_sessions svc)"
    by (auto intro: filter_cong)
  have b: "filter (\<lambda>kv. fst kv \<notin> set ks) (filter (\<lambda>kv. fst kv \<noteq> k) (session_state svc)) =
           filter (\<lambda>kv. fst kv \<notin> set (k # ks)) (session_state svc)"
    by (auto intro: filter_cong)
  show ?case
    using Cons.IH [of "pop_session k svc"] a b
    by (simp add: pop_session_def dict_pop_def)
qed

lemma expired_keys:
  assumes "distinct (map fst (session_state svc))"
  shows "set (map fst (filter (\<lambda>kv. se_last_activity (snd kv) < cutoff) (session_state svc))) =
         {sid. is_expired cutoff svc sid}"
proof -
  have "\<And>sid e. (sid, e) \<in> set (session_state svc) \<longleftrightarrow> map_of (session_state svc) sid = Some e"
    using assms by (simp add: map_of_eq_Some_iff)
  then show ?thesis
    by (force simp: is_expired_def dict_get_def split: option.splits)
qed

text \<open>
  C8. In a store whose state map has one entry per session id, cleaning up with a ttl in
  hours removes from both maps exactly the sessions whose last activity is strictly before
  now minus the ttl, leaves every other entry as it was, and returns the number of sessions
  removed.
\<close>

theorem cleanup_expired_sessions_exact:
  assumes "distinct (map fst (session_state svc))"
  shows "cleanup_expired_sessions now hours svc =
     (\<lparr>active_sessions =
          filter (\<lambda>kv. \<not> is_expired (now - hours * microseconds_per_hour) svc (fst kv))
            (active_sessions svc),
        session_state =
          filter (\<lambda>kv. \<not> is_expired (now - hours * microseconds_per_hour) svc (fst kv))
            (session_state svc)\<rparr>,
      card {sid. is_expired (now - hours * microseconds_per_hour) svc sid})"
proof -
  let ?cutoff = "now - hours * microseconds_per_hour"
  let ?expired = "map fst (filter (\<lambda>kv. se_last_activity (snd kv) < ?cutoff) (session_state svc))"
  have s: "set ?expired = {sid. is_expired ?cutoff svc sid}"
    using assms by (rule expired_keys)
  have "distinct ?expired" using assms by (rule distinct_map_filter)
  then have n: "length ?expired = card {sid. is_expired ?cutoff svc sid}"
    using s distinct_card by fastforce
  have fa: "filter (\<lambda>kv. fst kv \<notin> set ?expired) xs =
            filter (\<lambda>kv. \<not> is_expired ?cutoff svc (fst kv)) xs" for xs :: "(string \<times> 'a) list"
  proof (rule filter_cong [OF refl])
    fix kv :: "string \<times> 'a"
    show "(fst kv \<notin> set ?expired) = (\<not> is_expired ?cutoff svc (fst kv))"
      using s by blast
  qed
  have g: "fold pop_session ?expired svc =
     \<lparr>active_sessions = filter (\<lambda>kv. fst kv \<notin> set ?expired) (active_sessions svc),
      session_state = filter (\<lambda>kv. fst kv \<notin> set ?expired) (session_state svc)\<rparr>"
    using fold_pop_session [of ?expired svc] by (cases "fold pop_session ?expired svc") simp
  show ?thesis
    by (simp only: cleanup_expired_sessions_def Let_def g n fa)
qed

theorem cleanup_expired_sessions_exact_witness:
  "distinct (map fst
     [(''old'', \<lparr>se_status = ''active'', se_last_activity = 0,
         se_context = \<lparr>sd_summary = None, sd_analysis = None, sd_wellness_score = None,
           sd_recommendations = None\<rparr>, se_extra = []\<rparr>),
      (''new'', \<lparr>se_status = ''paused'', se_last_activity = 90 * microseconds_per_hour,
         se_context = \<lparr>sd_summary = None, sd_analysis = None, sd_wellness_score = None,
           sd_recommendations = None\<rparr>, se_extra = []\<rparr>)])
   \<and> cleanup_expired_sessions (100 * microseconds_per_hour) 24
       \<lparr>active_sessions = [],
        session_state =
          [(''old'', \<lparr>se_status = ''active'', se_last_activity = 0,
              se_context = \<lparr>sd_summary = None, sd_analysis = None, sd_wellness_score = None,
                sd_recommendations = None\<rparr>, se_extra = []\<rparr>),
           (''new'', \<lparr>se_status = ''paused'', se_last_activity = 90 * microseconds_per_hour,
              se_context = \<lparr>sd_summary = None, sd_analysis = None, sd_wellness_score = None,
                sd_recommendations = None\<rparr>, se_extra = []\<rparr>)]\<rparr> =
     (\<lparr>active_sessions = [],
       session_state =
          [(''new'', \<lparr>se_status = ''paused'', se_last_activity = 90 * microseconds_per_hour,
              se_context = \<lparr>sd_summary = None, sd_analysis = None, sd_wellness_score = None,
                sd_recommendations = None\<rparr>, se_extra = []\<rparr>)]\<rparr>,
      1)"
proof -
  let ?ctx = "\<lparr>sd_summary = None, sd_analysis = None, sd_wellness_score = None,
                sd_recommendations = None\<rparr>"
  let ?st = "[(''old'', \<lparr>se_status = ''active'', se_last_activity = 0,
                  se_context = ?ctx, se_extra = []\<rparr>),
              (''new'', \<lparr>se_status = ''paused'', se_last_activity = 90 * microseconds_per_hour,
                  se_context = ?ctx, se_extra = []\<rparr>)]"
  let ?svc = "\<lparr>active_sessions = [], session_state = ?st\<rparr>"
  have d: "distinct (map fst (session_state ?svc))" by simp
  have e: "{sid. is_expired (100 * microseconds_per_hour - 24 * microseconds_per_hour)
                   ?svc sid} = {''old''}"
    by (auto simp: is_expired_def dict_get_def microseconds_per_hour_def split: if_splits)
  show ?thesis
    using cleanup_expired_sessions_exact [OF d, of "100 * microseconds_per_hour" 24] e
    by (simp add: is_expired_def dict_get_def microseconds_per_hour_def)
qed

text \<open>
  C10. For a session id that is in neither map of the store, \<open>get_session\<close> returns
  nothing, and \<open>update_session_state\<close>, \<open>pause_session\<close> and \<open>resume_session\<close> return the
  store as it was: no entry is created and neither map changes.
\<close>

theorem absent_session_operations_are_noops:
  assumes "dict_get (active_sessions svc) sid = None"
    and "dict_get (session_state svc) sid = None"
  shows "get_session svc sid = None
     \<and> update_session_state now sid updates svc = svc
     \<and> pause_session sid svc = svc
     \<and> resume_session now sid svc = svc"
  using assms
  by (simp add: get_session_def update_session_state_def pause_session_def resume_session_def)

theorem absent_session_operations_are_noops_witness:
  "dict_get (active_sessions \<lparr>active_sessions = [], session_state = []\<rparr>) ''u_20240101_120000'' = None
   \<and> dict_get (session_state \<lparr>active_sessions = [], session_state = []\<rparr>) ''u_20240101_120000'' = None
   \<and> get_session \<lparr>active_sessions = [], session_state = []\<rparr> ''u_20240101_120000'' = None
   \<and> pause_session ''u_20240101_120000'' \<lparr>active_sessions = [], session_state = []\<rparr> =
       \<lparr>active_sessions = [], session_state = []\<rparr>
   \<and> resume_session 5 ''u_20240101_120000'' \<lparr>active_sessions = [], session_state = []\<rparr> =
       \<lparr>active_sessions = [], session_state = []\<rparr>
   \<and> update_session_state 5 ''u_20240101_120000''
        \<lparr>su_status = Some ''done'', su_last_activity = None, su_context = None, su_extra = []\<rparr>
        \<lparr>active_sessions = [], session_state = []\<rparr> =
       \<lparr>active_sessions = [], session_state = []\<rparr>"
proof -
  let ?svc = "\<lparr>active_sessions = [], session_state = []\<rparr> :: InMemorySessionService"
  have a: "dict_get (active_sessions ?svc) ''u_20240101_120000'' = None"
    by (simp add: dict_get_def)
  have b: "dict_get (session_state ?svc) ''u_20240101_120000'' = None"
    by (simp add: dict_get_def)
  show ?thesis
    using a b absent_session_operations_are_noops [OF a b, of 5
      "\<lparr>su_status = Some ''done'', su_last_activity = None, su_context = None, su_extra = []\<rparr>"]
    by simp
qed

subsection \<open>Finalizing into the memory bank\<close>

lemma store_session_row:
  "filter (\<lambda>row. session_id row = session_id s) (sessions_table (store_session bank s)) = [s]"
  by (simp add: store_session_def)

lemma store_session_distinct:
  assumes "distinct (map session_id (sessions_table bank))"
  shows "distinct (map session_id (sessions_table (store_session bank s)))"
  using assms by (auto simp: store_session_def distinct_map_filter)

lemma identify_patterns_sessions:
  "sessions_table (identify_patterns now1 now2 bank s) = sessions_table bank"
  by (simp add: identify_patterns_def store_user_pattern_def Let_def)

lemma finalize_session_service:
  "session_service (finalize_session now1 now2 sid mgr) = session_service mgr"
  by (simp add: finalize_session_def split: option.splits)

lemma finalize_session_table:
  "sessions_table (memory_bank (finalize_session now1 now2 sid mgr)) =
     (case get_session (session_service mgr) sid of
        None \<Rightarrow> sessions_table (memory_bank mgr)
      | Some s \<Rightarrow> sessions_table (store_session (memory_bank mgr) s))"
  by (simp add: finalize_session_def identify_patterns_sessions split: option.splits)

lemma distinct_key_at_most_one:
  "distinct (map f xs) \<Longrightarrow> length (filter (\<lambda>x. f x = k) xs) \<le> 1"
  by (induction xs) (auto simp: filter_empty_conv image_iff)

text \<open>
  C9. Starting from a sessions table that respects its primary key, finalizing the same
  session id twice leaves the active sessions and their state untouched, keeps at most one
  row per session id, and, when the session is active, leaves exactly one row for its
  id, equal to the session. Storing a second session under the id of a first one leaves
  only the second: the last write wins.
\<close>

theorem finalize_twice_last_write_wins:
  assumes "distinct (map session_id (sessions_table (memory_bank mgr)))"
  shows "session_service (finalize_session now3 now4 sid (finalize_session now1 now2 sid mgr)) =
           session_service mgr
     \<and> length (filter (\<lambda>row. session_id row = k)
         (sessions_table (memory_bank
            (finalize_session now3 now4 sid (finalize_session now1 now2 sid mgr))))) \<le> 1
     \<and> (case get_session (session_service mgr) sid of
          None \<Rightarrow>
            sessions_table (memory_bank
              (finalize_session now3 now4 sid (finalize_session now1 now2 sid mgr))) =
            sessions_table (memory_bank mgr)
        | Some s \<Rightarrow>
            filter (\<lambda>row. session_id row = session_id s)
              (sessions_table (memory_bank
                 (finalize_session now3 now4 sid (finalize_session now1 now2 sid mgr)))) = [s])
     \<and> filter (\<lambda>row. session_id row = session_id s1)
         (sessions_table (store_session (store_session bank s1)
            (s2\<lparr>session_id := session_id s1\<rparr>))) = [s2\<lparr>session_id := session_id s1\<rparr>]"
proof -
  let ?m1 = "finalize_session now1 now2 sid mgr"
  let ?m2 = "finalize_session now3 now4 sid ?m1"
  have svc1: "session_service ?m1 = session_service mgr" by (rule finalize_session_service)
  have svc2: "session_service ?m2 = session_service mgr"
    using svc1 by (simp add: finalize_session_service)
  have d1: "distinct (map session_id (sessions_table (memory_bank ?m1)))"
    using assms by (simp add: finalize_session_table store_session_distinct split: option.splits)
  have d2: "distinct (map session_id (sessions_table (memory_bank ?m2)))"
    using d1 by (simp add: finalize_session_table store_session_distinct split: option.splits)
  have one: "length (filter (\<lambda>row. session_id row = k) (sessions_table (memory_bank ?m2))) \<le> 1"
    using d2 by (rule distinct_key_at_most_one)
  have rows: "case get_session (session_service mgr) sid of
          None \<Rightarrow> sessions_table (memory_bank ?m2) = sessions_table (memory_bank mgr)
        | Some s \<Rightarrow>
            filter (\<lambda>row. session_id row = session_id s) (sessions_table (memory_bank ?m2)) = [s]"
    by (simp add: finalize_session_table svc1 store_session_row split: option.splits)
  have last: "filter (\<lambda>row. session_id row = session_id s1)
         (sessions_table (store_session (store_session bank s1)
            (s2\<lparr>session_id := session_id s1\<rparr>))) = [s2\<lparr>session_id := session_id s1\<rparr>]"
    using store_session_row [of "s2\<lparr>session_id := session_id s1\<rparr>" "store_session bank s1"]
    by simp
  show ?thesis using svc2 one rows last by blast
qed

theorem finalize_twice_last_write_wins_witness:
  "distinct (map session_id (sessions_table
      (memory_bank
        \<lparr>session_service =
           \<lparr>active_sessions =
              [(''u_1'', \<lparr>session_id = ''u_1'', user_id = ''u'', timestamp = 7,
                  data_summary = PDict [], analysis_results = PDict [],
                  wellness_score = 85, recommendations = [''Walk more'']\<rparr>)],
            session_state = []\<rparr>,
         memory_bank = \<lparr>sessions_table = [], user_patterns_table = []\<rparr>\<rparr>)))
   \<and> sessions_table (memory_bank
        (finalize_session 30 40 ''u_1''
          (finalize_session 10 20 ''u_1''
            \<lparr>session_service =
               \<lparr>active_sessions =
                  [(''u_1'', \<lparr>session_id = ''u_1'', user_id = ''u'', timestamp = 7,
                      data_summary = PDict [], analysis_results = PDict [],
                      wellness_score = 85, recommendations = [''Walk more'']\<rparr>)],
                session_state = []\<rparr>,
             memory_bank = \<lparr>sessions_table = [], user_patterns_table = []\<rparr>\<rparr>))) =
       [\<lparr>session_id = ''u_1'', user_id = ''u'', timestamp = 7,
         data_summary = PDict [], analysis_results = PDict [],
         wellness_score = 85, recommendations = [''Walk more'']\<rparr>]"
proof -
  let ?s = "\<lparr>session_id = ''u_1'', user_id = ''u'', timestamp = 7,
             data_summary = PDict [], analysis_results = PDict [],
             wellness_score = 85, recommendations = [''Walk more'']\<rparr>"
  let ?mgr = "\<lparr>session_service = \<lparr>active_sessions = [(''u_1'', ?s)], session_state = []\<rparr>,
               memory_bank = \<lparr>sessions_table = [], user_patterns_table = []\<rparr>\<rparr>"
  have d: "distinct (map session_id (sessions_table (memory_bank ?mgr)))" by simp
  have e: "sessions_table (memory_bank
        (finalize_session 30 40 ''u_1'' (finalize_session 10 20 ''u_1'' ?mgr))) = [?s]"
    by (simp add: finalize_session_table finalize_session_service get_session_def dict_get_def
        store_session_def)
  show ?thesis
    using d e finalize_twice_last_write_wins [OF d, of 30 40 "''u_1''" 10 20]
    by simp
qed

section \<open>Properties of the insight agent\<close>

lemma find_char_range: "- 1 \<le> find_char c s \<and> find_char c s < int (length s)"
  by (induction s) (auto simp: Let_def)

lemma find_char_hit: "find_char c s \<noteq> - 1 \<Longrightarrow> s ! nat (find_char c s) = c"
proof (induction s)
  case Nil
  then show ?case by simp
next
  case (Cons x xs)
  show ?case
  proof (cases "x = c")
    case True
    then show ?thesis by simp
  next
    case False
    with Cons.prems have n: "find_char c xs \<noteq> - 1" by (auto simp: Let_def split: if_splits)
    then have "0 \<le> find_char c xs" using find_char_range [of c xs] by linarith
    then have "nat (find_char c xs + 1) = Suc (nat (find_char c xs))" by simp
    with False n Cons.IH show ?thesis by (simp add: Let_def)
  qed
qed

lemma py_slice_head:
  assumes "find_char c s \<noteq> - 1"
  shows "py_slice s (find_char c s) stop = [] \<or> hd (py_slice s (find_char c s) stop) = c"
proof (cases "nat (find_char c s) < nat stop")
  case True
  have r: "0 \<le> find_char c s" "find_char c s < int (length s)"
    using assms find_char_range [of c s] by linarith+
  then have l: "nat (find_char c s) < length (take (nat stop) s)" using True by simp
  then have "hd (drop (nat (find_char c s)) (take (nat stop) s)) =
             take (nat stop) s ! nat (find_char c s)"
    by (rule hd_drop_conv_nth)
  also have "\<dots> = s ! nat (find_char c s)" using True by simp
  also have "\<dots> = c" using assms by (rule find_char_hit)
  finally show ?thesis by (simp add: py_slice_def)
next
  case False
  then have a: "nat stop \<le> nat (find_char c s)" by (rule leI)
  have b: "length (take (nat stop) s) \<le> nat stop" by simp
  from b a have "length (take (nat stop) s) \<le> nat (find_char c s)" by (rule order_trans)
  then have "drop (nat (find_char c s)) (take (nat stop) s) = []" by (rule drop_all)
  then show ?thesis by (simp only: py_slice_def simp_thms)
qed

lemma extract_insights_is_dict: "\<exists>d. extract_insights_from_text text = PDict d"
  by (simp add: extract_insights_from_text_def split: prod.splits)

lemma parse_gemini_response_dict:
  assumes "loads_objects loads" and "parse_gemini_response loads text = Inr v"
  shows "\<exists>d. v = PDict d"
proof (cases "find_char (CHR ''{'') text \<noteq> - 1 \<and> rfind_char (CHR ''}'') text + 1 \<noteq> - 1")
  case True
  let ?js = "py_slice text (find_char (CHR ''{'') text) (rfind_char (CHR ''}'') text + 1)"
  have h: "?js = [] \<or> hd ?js = CHR ''{''" using True by (simp add: py_slice_head)
  show ?thesis
  proof (cases "loads ?js")
    case (Inl e)
    with True assms(2) have "v = extract_insights_from_text text"
      by (cases e) (simp_all add: parse_gemini_response_def Let_def)
    then show ?thesis using extract_insights_is_dict by simp
  next
    case (Inr w)
    with True assms(2) have "v = w" by (simp add: parse_gemini_response_def Let_def)
    with Inr h assms(1) show ?thesis unfolding loads_objects_def by blast
  qed
next
  case False
  with assms(2) have "v = extract_insights_from_text text"
    by (auto simp: parse_gemini_response_def Let_def)
  then show ?thesis using extract_insights_is_dict by simp
qed

lemma fallback_insights_is_dict: "\<exists>d. fallback_insights data = PDict d"
  by (simp add: fallback_insights_def Let_def)

lemma toy_loads_objects: "loads_objects toy_loads"
  by (simp add: loads_objects_def toy_loads_def)

text \<open>
  On typed input and with a JSON decoder that returns dicts for texts beginning with an
  opening brace, \<open>generate_health_insights\<close> returns whatever the completion service
  does: the status is success or error and the insights are a dict.
\<close>

lemma generate_health_insights_typed_returns:
  assumes "loads_objects loads"
  shows "\<exists>r. generate_health_insights loads llm data = Inr r
     \<and> (ir_status r = ''success'' \<or> ir_status r = ''error'')
     \<and> ir_insights r \<noteq> PNone
     \<and> (\<exists>d. ir_insights r = PDict d)"
proof (cases "llm (create_health_prompt data)")
  case (Raises e)
  then show ?thesis
    using fallback_insights_is_dict [of data]
    by (auto simp: generate_health_insights_def Let_def)
next
  case (Responds resp)
  show ?thesis
  proof (cases "parse_gemini_response loads resp")
    case (Inl e)
    with Responds show ?thesis
      using fallback_insights_is_dict [of data]
      by (auto simp: generate_health_insights_def Let_def)
  next
    case (Inr v)
    then obtain d where "v = PDict d"
      using parse_gemini_response_dict [OF assms] by blast
    with Responds Inr show ?thesis
      by (simp add: generate_health_insights_def Let_def)
  qed
qed

subsection \<open>On arbitrary dicts\<close>

lemma py_bind_simps [simp]:
  "py_bind (Inl e) f = Inl e" "py_bind (Inr v) f = f v"
  by (simp_all add: py_bind_def)

lemma py_get_summary:
  "py_get (py_summary summ) k (PNum 0) = Inr (PNum (dict_get_default summ k 0))"
proof -
  have "map_of (map (\<lambda>kv. (fst kv, PNum (snd kv))) summ) k = map_option PNum (map_of summ k)"
    by (induction summ) auto
  then show ?thesis
    by (simp add: py_get_def py_summary_def dict_get_default_def split: option.splits)
qed

lemma py_health_data_summary:
  "dict_get_default (py_health_data data) ''summary'' (PDict []) = py_summary (summary_of data)"
  by (simp add: py_health_data_def dict_get_default_def summary_of_def py_summary_def
      split: option.splits)

text \<open>On the dict of a typed record the two versions of the fallback agree.\<close>

lemma fallback_insights_dyn_typed:
  "fallback_insights_dyn (py_health_data data) = Inr (fallback_insights data)"
  by (simp add: fallback_insights_dyn_def py_health_data_summary py_get_summary num_of_def
      fallback_insights_def summary_of_def Let_def)

lemma generate_health_insights_dyn_typed:
  assumes "create_health_prompt_dyn dumps (py_health_data data) = Inr p"
    and "llm' p = llm (create_health_prompt data)"
  shows "generate_health_insights_dyn dumps loads llm' (py_health_data data) =
         generate_health_insights loads llm data"
  using assms
  by (simp add: generate_health_insights_dyn_def generate_health_insights_def
      fallback_insights_dyn_typed Let_def split: llm_outcome.splits sum.splits)

lemma fallback_insights_dyn_is_dict:
  "fallback_insights_dyn data = Inr v \<Longrightarrow> \<exists>d. v = PDict d"
  by (auto simp: fallback_insights_dyn_def py_bind_def Let_def split: sum.splits)

text \<open>
  Where the prompt can be built and the fallback can be evaluated, the function returns,
  with status success or error and a dict of insights.
\<close>

lemma generate_health_insights_dyn_returns:
  assumes "loads_objects loads"
    and "create_health_prompt_dyn dumps data = Inr p"
    and "fallback_insights_dyn data = Inr f"
  shows "\<exists>r. generate_health_insights_dyn dumps loads llm data = Inr r
     \<and> (ir_status r = ''success'' \<or> ir_status r = ''error'')
     \<and> (\<exists>d. ir_insights r = PDict d)"
proof -
  obtain fd where fd: "f = PDict fd"
    using assms(3) fallback_insights_dyn_is_dict by blast
  show ?thesis
  proof (cases "llm p")
    case (Raises e)
    then show ?thesis using assms(2,3) fd
      by (simp add: generate_health_insights_dyn_def Let_def)
  next
    case (Responds resp)
    show ?thesis
    proof (cases "parse_gemini_response loads resp")
      case (Inl e)
      with Responds show ?thesis using assms(2,3) fd
        by (simp add: generate_health_insights_dyn_def Let_def)
    next
      case (Inr v)
      then obtain d where "v = PDict d"
        using parse_gemini_response_dict [OF assms(1)] by blast
      with Responds Inr show ?thesis using assms(2)
        by (simp add: generate_health_insights_dyn_def Let_def)
    qed
  qed
qed

text \<open>
  C1 fails on the code. With a summary that is not a dict (\<open>{"summary": None}\<close>) building
  the prompt raises \<open>AttributeError\<close> before the \<open>try\<close>, whatever the service does. With
  a summary that holds \<open>None\<close> for the step average (\<open>{"summary": {"steps_avg_7d":
  None}}\<close>) and a completion call that raises, the handler evaluates the fallback, which
  compares \<open>None\<close> with 8000 and raises \<open>TypeError\<close>. Both exceptions reach the caller.
\<close>

theorem generate_health_insights_raises_to_caller:
  "generate_health_insights_dyn dumps loads llm [(''summary'', PNone)] = Inl AttributeError
   \<and> generate_health_insights_dyn (\<lambda>v. Inr ''{}'') loads (\<lambda>p. Raises e)
       [(''summary'', PDict [(''steps_avg_7d'', PNone)])] = Inl TypeError
   \<and> isl (generate_health_insights_dyn dumps loads (\<lambda>p. Raises e)
            [(''summary'', PDict [(''steps_avg_7d'', PNone)])])"
  by (simp add: generate_health_insights_dyn_def create_health_prompt_dyn_def
      fallback_insights_dyn_def py_get_def num_of_def dict_get_default_def py_bind_def
      Let_def split: sum.splits)

lemma clamp_min_max: "clamp x 0 100 = min 100 (max 0 x)"
  by (simp add: clamp_def min_def max_def)

lemma fallback_recommendations_take:
  "take 3 ((if a then [x] else []) @ (if b then [y] else []) @ (if c then [z] else [])) =
   (if a then [x] else []) @ (if b then [y] else []) @ (if c then [z] else [])"
  by simp

text \<open>
  C6. When the completion call raises, the result is the error result carrying the
  fallback insights; their wellness score is \<open>steps / 100 + sleep * 10 + (100 - hr)\<close> of
  the summary's seven-day averages clamped to the interval from 0 to 100, and their
  recommendations are those of the checks steps below 8000, sleep below 7 and heart rate
  above 85, at most three.
\<close>

theorem fallback_insights_on_service_exception:
  assumes "llm (create_health_prompt data) = Raises e"
  shows "generate_health_insights loads llm data =
       Inr \<lparr>ir_status = ''error'', ir_insights = fallback_insights data, ir_error = Some e,
            ir_confidence = None, ir_source = None\<rparr>
     \<and> (\<exists>d. fallback_insights data = PDict d
          \<and> dict_get d ''wellness_score'' =
              Some (PNum (clamp (dict_get_default (summary_of data) ''steps_avg_7d'' 0 / 100
                                 + dict_get_default (summary_of data) ''sleep_avg_7d'' 0 * 10
                                 + (100 - dict_get_default (summary_of data)
                                            ''heart_rate_avg_7d'' 0)) 0 100))
          \<and> dict_get d ''recommendations'' =
              Some (PList (map PStr
                (spec_fallback_recommendations
                   (dict_get_default (summary_of data) ''steps_avg_7d'' 0)
                   (dict_get_default (summary_of data) ''sleep_avg_7d'' 0)
                   (dict_get_default (summary_of data) ''heart_rate_avg_7d'' 0)))))
     \<and> length (spec_fallback_recommendations
                   (dict_get_default (summary_of data) ''steps_avg_7d'' 0)
                   (dict_get_default (summary_of data) ''sleep_avg_7d'' 0)
                   (dict_get_default (summary_of data) ''heart_rate_avg_7d'' 0)) \<le> 3"
proof -
  have r: "generate_health_insights loads llm data =
       Inr \<lparr>ir_status = ''error'', ir_insights = fallback_insights data, ir_error = Some e,
            ir_confidence = None, ir_source = None\<rparr>"
    using assms by (simp add: generate_health_insights_def Let_def)
  have f: "\<exists>d. fallback_insights data = PDict d
          \<and> dict_get d ''wellness_score'' =
              Some (PNum (clamp (dict_get_default (summary_of data) ''steps_avg_7d'' 0 / 100
                                 + dict_get_default (summary_of data) ''sleep_avg_7d'' 0 * 10
                                 + (100 - dict_get_default (summary_of data)
                                            ''heart_rate_avg_7d'' 0)) 0 100))
          \<and> dict_get d ''recommendations'' =
              Some (PList (map PStr
                (spec_fallback_recommendations
                   (dict_get_default (summary_of data) ''steps_avg_7d'' 0)
                   (dict_get_default (summary_of data) ''sleep_avg_7d'' 0)
                   (dict_get_default (summary_of data) ''heart_rate_avg_7d'' 0))))"
    by (simp add: fallback_insights_def Let_def summary_of_def dict_get_def clamp_min_max
        spec_fallback_recommendations_def)
  have l: "length (spec_fallback_recommendations
                   (dict_get_default (summary_of data) ''steps_avg_7d'' 0)
                   (dict_get_default (summary_of data) ''sleep_avg_7d'' 0)
                   (dict_get_default (summary_of data) ''heart_rate_avg_7d'' 0)) \<le> 3"
    by (simp add: spec_fallback_recommendations_def)
  show ?thesis using r f l by blast
qed

theorem fallback_insights_on_service_exception_witness:
  "(\<lambda>p. Raises (OtherError ''timeout''))
      (create_health_prompt
        \<lparr>hd_summary = Some [(''steps_avg_7d'', 7500), (''heart_rate_avg_7d'', 75),
                            (''sleep_avg_7d'', 65 / 10), (''water_avg_7d'', 1800)],
         hd_timeseries = None, hd_agent_results = None\<rparr>) = Raises (OtherError ''timeout'')
   \<and> generate_health_insights toy_loads (\<lambda>p. Raises (OtherError ''timeout''))
        \<lparr>hd_summary = Some [(''steps_avg_7d'', 7500), (''heart_rate_avg_7d'', 75),
                            (''sleep_avg_7d'', 65 / 10), (''water_avg_7d'', 1800)],
         hd_timeseries = None, hd_agent_results = None\<rparr> =
      Inr \<lparr>ir_status = ''error'',
           ir_insights =
             PDict [(''wellness_score'', PNum 100),
                    (''recommendations'',
                       PList [PStr ''Increase daily steps to 8,000+'',
                              PStr ''Aim for 7-9 hours of sleep'']),
                    (''risks'', PList [PStr ''Insufficient data for risk assessment'']),
                    (''positive_patterns'', PList [PStr ''Regular health monitoring'']),
                    (''summary'', PStr ''Basic health assessment completed'')],
           ir_error = Some (OtherError ''timeout''), ir_confidence = None, ir_source = None\<rparr>"
proof -
  let ?llm = "\<lambda>p :: health_prompt. Raises (OtherError ''timeout'')"
  let ?data = "\<lparr>hd_summary = Some [(''steps_avg_7d'', 7500), (''heart_rate_avg_7d'', 75),
                            (''sleep_avg_7d'', 65 / 10), (''water_avg_7d'', 1800)],
         hd_timeseries = None, hd_agent_results = None\<rparr>"
  have a: "?llm (create_health_prompt ?data) = Raises (OtherError ''timeout'')" by simp
  show ?thesis
    using fallback_insights_on_service_exception [of ?llm ?data "OtherError ''timeout''" toy_loads, OF a]
    by (simp add: fallback_insights_def dict_get_default_def)
qed

section \<open>Properties of the navbar endpoints\<close>

text \<open>
  With metrics whose four fields are all present, every endpoint answers 200 with its
  mock generator's content when the client library is unavailable or the completion call
  raises on every invocation.
\<close>

lemma mock_generators_complete:
  assumes "complete_metrics metrics"
  shows "(\<exists>g. generate_mock_greeting metrics = Inr g)
     \<and> (\<exists>v. generate_mock_health_status metrics = Inr v)
     \<and> (\<exists>v. generate_mock_action_items metrics = Inr v)
     \<and> (\<exists>v. generate_mock_nav_recommendations page = Inr v)
     \<and> (\<exists>v. generate_mock_alert anomalies = Inr v)"
proof -
  from assms obtain st h sl w where
    "avgSteps metrics = Some st" "avgHeartRate metrics = Some h"
    "avgSleep metrics = Some sl" "avgWater metrics = Some w"
    by (auto simp: complete_metrics_def)
  then show ?thesis
    by (simp add: generate_mock_greeting_def generate_mock_health_status_def
        generate_mock_action_items_def generate_mock_nav_recommendations_def
        generate_mock_alert_def recommendations_map_def dict_get_def Let_def
        split: option.splits list.splits)
qed

lemma endpoints_degrade_to_mock:
  assumes "complete_metrics metrics"
    and "\<not> gemini_available \<or> (\<forall>p. \<exists>e. llm p = Raises e)"
  shows "(\<exists>g. generate_mock_greeting metrics = Inr g
            \<and> navbar_greeting gemini_available llm
                \<lparr>ngr_metrics = metrics, ngr_timestamp = ts\<rparr> = Http200 g)
     \<and> (\<exists>v. generate_mock_health_status metrics = Inr v
            \<and> health_status_badge gemini_available loads llm metrics = Http200 v)
     \<and> (\<exists>v. generate_mock_action_items metrics = Inr v
            \<and> action_items gemini_available loads llm metrics = Http200 v)
     \<and> (\<exists>v. generate_mock_nav_recommendations page = Inr v
            \<and> nav_recommendations gemini_available loads llm
                \<lparr>nrr_metrics = metrics, nrr_currentPage = page\<rparr> = Http200 v)
     \<and> (\<exists>v. generate_mock_alert anomalies = Inr v
            \<and> health_alert gemini_available loads llm anomalies = Http200 v)"
proof -
  from assms(1) obtain st h sl w where m:
    "avgSteps metrics = Some st" "avgHeartRate metrics = Some h"
    "avgSleep metrics = Some sl" "avgWater metrics = Some w"
    by (auto simp: complete_metrics_def)
  then have fm: "format_metrics metrics = Inr (st, h, sl, w)"
    by (simp add: format_metrics_def)
  from mock_generators_complete [OF assms(1), of page anomalies] obtain g v1 v2 v3 v4 where mk:
    "generate_mock_greeting metrics = Inr g" "generate_mock_health_status metrics = Inr v1"
    "generate_mock_action_items metrics = Inr v2"
    "generate_mock_nav_recommendations page = Inr v3"
    "generate_mock_alert anomalies = Inr v4" by blast
  show ?thesis
  proof (cases gemini_available)
    case False
    then show ?thesis using mk
      by (simp add: navbar_greeting_def health_status_badge_def action_items_def
          nav_recommendations_def health_alert_def generate_greeting_with_llm_def
          generate_health_status_with_llm_def generate_action_items_with_llm_def
          generate_nav_recommendations_with_llm_def generate_health_alert_with_llm_def)
  next
    case True
    with assms(2) have r: "\<And>p. \<exists>e. llm p = Raises e" by blast
    obtain e1 where e1: "llm (GreetingPrompt st h sl w ts) = Raises e1" using r by blast
    obtain e2 where e2: "llm (StatusPrompt st h sl w) = Raises e2" using r by blast
    obtain e3 where e3: "llm (ActionPrompt st h sl w) = Raises e3" using r by blast
    obtain e4 where e4: "llm (NavPrompt st h sl w page) = Raises e4" using r by blast
    obtain e5 where e5:
      "llm (AlertPrompt (alert_reasons (case anomalies of None \<Rightarrow> [] | Some xs \<Rightarrow> xs))) = Raises e5"
      using r by blast
    show ?thesis using True mk fm e1 e2 e3 e4 e5
      by (simp add: navbar_greeting_def health_status_badge_def action_items_def
          nav_recommendations_def health_alert_def generate_greeting_with_llm_def
          generate_health_status_with_llm_def generate_action_items_with_llm_def
          generate_nav_recommendations_with_llm_def generate_health_alert_with_llm_def
          Let_def)
  qed
qed

text \<open>
  C7 fails on a request whose \<open>avgSteps\<close> is \<open>null\<close>: whether the client library is
  unavailable or the completion service raises (or would answer), the mock generator
  compares \<open>None\<close> with a number, and the greeting, status and action-item endpoints answer
  500.
\<close>

theorem null_metric_reaches_http_500:
  "navbar_greeting False llm \<lparr>ngr_metrics = null_steps_metrics, ngr_timestamp = ts\<rparr> =
     Http500 TypeError
   \<and> navbar_greeting True llm \<lparr>ngr_metrics = null_steps_metrics, ngr_timestamp = ts\<rparr> =
     Http500 TypeError
   \<and> health_status_badge False loads llm null_steps_metrics = Http500 TypeError
   \<and> health_status_badge True loads llm null_steps_metrics = Http500 TypeError
   \<and> action_items False loads llm null_steps_metrics = Http500 TypeError
   \<and> action_items True loads llm null_steps_metrics = Http500 TypeError"
  by (simp add: navbar_greeting_def generate_greeting_with_llm_def generate_mock_greeting_def
      health_status_badge_def generate_health_status_with_llm_def
      generate_mock_health_status_def action_items_def generate_action_items_with_llm_def
      generate_mock_action_items_def format_metrics_def null_steps_metrics_def)


end
